theory Spec2Isabelle
  imports Main "HOL-Library.Word" "HOL-Library.AList" "HOL-Library.Sublist" "HOL-Library.Monad_Syntax"
begin

section \<open>JSON documents\<close>

text \<open>
  Both programs of \<^verbatim>\<open>main.cpp\<close> keep the project state in a JSON file that they read
  and write through the nlohmann library. A document is modelled by its parsed value.
  An object is an association list of its members; the library keeps members sorted by
  key, and the programs only ever overwrite members that are present, so positions do
  not move. Floating-point numbers are left out.
\<close>

datatype json =
    JNull
  | JBool bool
  | JInt int
  | JString string
  | JArray "json list"
  | JObject "(string \<times> json) list"

text \<open>\<^verbatim>\<open>j.at(key)\<close>: throws (here \<open>None\<close>) unless \<open>j\<close> is an object with that member.\<close>

definition jat :: "json \<Rightarrow> string \<Rightarrow> json option" where
  "jat j k = (case j of JObject kvs \<Rightarrow> map_of kvs k | _ \<Rightarrow> None)"

text \<open>
  \<^verbatim>\<open>j[key]\<close> on a non-const document: \<open>null\<close> behaves as an empty object, a missing
  member reads as \<open>null\<close>, and anything that is not an object throws.
\<close>

definition jindex :: "json \<Rightarrow> string \<Rightarrow> json option" where
  "jindex j k =
     (case j of
        JNull \<Rightarrow> Some JNull
      | JObject kvs \<Rightarrow> Some (case map_of kvs k of None \<Rightarrow> JNull | Some v \<Rightarrow> v)
      | _ \<Rightarrow> None)"

text \<open>\<^verbatim>\<open>j[key] = v\<close>.\<close>

definition jassign :: "json \<Rightarrow> string \<Rightarrow> json \<Rightarrow> json option" where
  "jassign j k v =
     (case j of
        JNull \<Rightarrow> Some (JObject [(k, v)])
      | JObject kvs \<Rightarrow> Some (JObject (AList.update k v kvs))
      | _ \<Rightarrow> None)"

text \<open>Conversions \<^verbatim>\<open>get<bool>\<close>, \<^verbatim>\<open>get<std::string>\<close>, \<^verbatim>\<open>get<int>\<close>; \<open>None\<close> is a type error.
  The library converts a boolean to an arithmetic type, and casts an integer to the
  32-bit \<^verbatim>\<open>int\<close>.\<close>

definition get_bool :: "json \<Rightarrow> bool option" where
  "get_bool j = (case j of JBool b \<Rightarrow> Some b | _ \<Rightarrow> None)"

definition get_string :: "json \<Rightarrow> string option" where
  "get_string j = (case j of JString s \<Rightarrow> Some s | _ \<Rightarrow> None)"

definition get_int :: "json \<Rightarrow> 32 word option" where
  "get_int j =
     (case j of
        JInt n \<Rightarrow> Some (word_of_int n)
      | JBool b \<Rightarrow> Some (if b then 1 else 0)
      | _ \<Rightarrow> None)"

text \<open>\<^verbatim>\<open>bool x = j[k1][k2]\<close> and \<^verbatim>\<open>j[k1][k2] = b\<close>, as \<^verbatim>\<open>uncheckMetadata\<close> uses them.\<close>

definition read_flag :: "json \<Rightarrow> string \<Rightarrow> string \<Rightarrow> bool option" where
  "read_flag j k1 k2 = do { g \<leftarrow> jindex j k1; v \<leftarrow> jindex g k2; get_bool v }"

definition write_flag :: "json \<Rightarrow> string \<Rightarrow> string \<Rightarrow> bool \<Rightarrow> json option" where
  "write_flag j k1 k2 b = do { g \<leftarrow> jindex j k1; g' \<leftarrow> jassign g k2 (JBool b); jassign j k1 g' }"

section \<open>The project record of Project\_manager\<close>

record ProjectMetadata =
  name :: string

record GraphVerilogMetadata =
  graphSerialized :: bool
  verilogGenerated :: bool

record QuartusMetadata =
  quartusCompiled :: bool
  deviceName :: string

record DatabaseMetadata =
  dbIp :: string
  dbUsername :: string
  dbPassword :: string
  dbName :: string
  dbPort :: "32 word"
  writtenToDB :: bool

record ProjectSettings =
  projectMetadata :: ProjectMetadata
  graphVerilogMetadata :: GraphVerilogMetadata
  quartusMetadata :: QuartusMetadata
  databaseMetadata :: DatabaseMetadata

text \<open>The default-constructed \<^verbatim>\<open>ProjectSettings\<close>: the member initialisers of the classes.\<close>

definition default_ProjectSettings :: ProjectSettings where
  "default_ProjectSettings =
     \<lparr> projectMetadata = \<lparr> name = [] \<rparr>,
       graphVerilogMetadata = \<lparr> graphSerialized = False, verilogGenerated = False \<rparr>,
       quartusMetadata = \<lparr> quartusCompiled = False, deviceName = ''5CGXFC9E7F35C8'' \<rparr>,
       databaseMetadata = \<lparr> dbIp = [], dbUsername = [], dbPassword = [], dbName = [],
                            dbPort = - 1, writtenToDB = False \<rparr> \<rparr>"

text \<open>\<^verbatim>\<open>NLOHMANN_DEFINE_TYPE_INTRUSIVE\<close>: \<open>to_json\<close> writes one member per field,
  \<open>from_json\<close> reads each with \<^verbatim>\<open>at\<close> and converts it.\<close>

definition to_json_ProjectMetadata :: "ProjectMetadata \<Rightarrow> json" where
  "to_json_ProjectMetadata m = JObject [(''name'', JString (name m))]"

definition to_json_GraphVerilogMetadata :: "GraphVerilogMetadata \<Rightarrow> json" where
  "to_json_GraphVerilogMetadata m =
     JObject [(''graphSerialized'', JBool (graphSerialized m)),
              (''verilogGenerated'', JBool (verilogGenerated m))]"

definition to_json_QuartusMetadata :: "QuartusMetadata \<Rightarrow> json" where
  "to_json_QuartusMetadata m =
     JObject [(''deviceName'', JString (deviceName m)),
              (''quartusCompiled'', JBool (quartusCompiled m))]"

definition to_json_DatabaseMetadata :: "DatabaseMetadata \<Rightarrow> json" where
  "to_json_DatabaseMetadata m =
     JObject [(''dbIp'', JString (dbIp m)),
              (''dbName'', JString (dbName m)),
              (''dbPassword'', JString (dbPassword m)),
              (''dbPort'', JInt (sint (dbPort m))),
              (''dbUsername'', JString (dbUsername m)),
              (''writtenToDB'', JBool (writtenToDB m))]"

definition to_json :: "ProjectSettings \<Rightarrow> json" where
  "to_json ps =
     JObject [(''databaseMetadata'', to_json_DatabaseMetadata (databaseMetadata ps)),
              (''graphVerilogMetadata'', to_json_GraphVerilogMetadata (graphVerilogMetadata ps)),
              (''projectMetadata'', to_json_ProjectMetadata (projectMetadata ps)),
              (''quartusMetadata'', to_json_QuartusMetadata (quartusMetadata ps))]"

definition from_json_ProjectMetadata :: "json \<Rightarrow> ProjectMetadata option" where
  "from_json_ProjectMetadata j = do {
     n \<leftarrow> jat j ''name'' \<bind> get_string;
     Some \<lparr> name = n \<rparr> }"

definition from_json_GraphVerilogMetadata :: "json \<Rightarrow> GraphVerilogMetadata option" where
  "from_json_GraphVerilogMetadata j = do {
     g \<leftarrow> jat j ''graphSerialized'' \<bind> get_bool;
     v \<leftarrow> jat j ''verilogGenerated'' \<bind> get_bool;
     Some \<lparr> graphSerialized = g, verilogGenerated = v \<rparr> }"

definition from_json_QuartusMetadata :: "json \<Rightarrow> QuartusMetadata option" where
  "from_json_QuartusMetadata j = do {
     q \<leftarrow> jat j ''quartusCompiled'' \<bind> get_bool;
     d \<leftarrow> jat j ''deviceName'' \<bind> get_string;
     Some \<lparr> quartusCompiled = q, deviceName = d \<rparr> }"

definition from_json_DatabaseMetadata :: "json \<Rightarrow> DatabaseMetadata option" where
  "from_json_DatabaseMetadata j = do {
     ip \<leftarrow> jat j ''dbIp'' \<bind> get_string;
     us \<leftarrow> jat j ''dbUsername'' \<bind> get_string;
     pw \<leftarrow> jat j ''dbPassword'' \<bind> get_string;
     nm \<leftarrow> jat j ''dbName'' \<bind> get_string;
     po \<leftarrow> jat j ''dbPort'' \<bind> get_int;
     w \<leftarrow> jat j ''writtenToDB'' \<bind> get_bool;
     Some \<lparr> dbIp = ip, dbUsername = us, dbPassword = pw, dbName = nm,
            dbPort = po, writtenToDB = w \<rparr> }"

definition from_json :: "json \<Rightarrow> ProjectSettings option" where
  "from_json j = do {
     p \<leftarrow> jat j ''projectMetadata'' \<bind> from_json_ProjectMetadata;
     g \<leftarrow> jat j ''graphVerilogMetadata'' \<bind> from_json_GraphVerilogMetadata;
     q \<leftarrow> jat j ''quartusMetadata'' \<bind> from_json_QuartusMetadata;
     d \<leftarrow> jat j ''databaseMetadata'' \<bind> from_json_DatabaseMetadata;
     Some \<lparr> projectMetadata = p, graphVerilogMetadata = g,
            quartusMetadata = q, databaseMetadata = d \<rparr> }"

section \<open>Files, output and exit status\<close>

text \<open>
  The file system is a store from the path strings the programs build to what is found
  there: a file whose text parses as JSON (kept as the parsed document), any other file,
  or a directory with the names of the entries that the programs do not address by a path
  of their own. Distinct path strings are distinct files. A new file or a moved one needs
  its parent directory: the text before the last \<open>/\<close> of its path, which must be a
  directory of the store, or empty (the current or the root directory).
\<close>

datatype node = File_json json | File_text string | Dir "string list"

type_synonym fs = "string \<Rightarrow> node option"

text \<open>What a run prints, and the commands it hands to the operating system, in order.\<close>

datatype event = Out string | Err string | Copy_out string | Launch string

text \<open>How a run ends: \<^verbatim>\<open>exit\<close>/\<^verbatim>\<open>return\<close> from \<^verbatim>\<open>main\<close>, an exception that nothing catches
  (\<^verbatim>\<open>std::terminate\<close>), or undefined behaviour (a vector read past its end).\<close>

datatype outcome = Exit int | Abort | Undefined

text \<open>\<^verbatim>\<open>std::filesystem::exists\<close>.\<close>

definition exists_path :: "fs \<Rightarrow> string \<Rightarrow> bool" where
  "exists_path s p = (s p \<noteq> None)"

text \<open>\<^verbatim>\<open>path::parent_path\<close>: the text before the last \<open>/\<close>, empty when there is none.\<close>

definition parent_path :: "string \<Rightarrow> string" where
  "parent_path p = rev (drop 1 (dropWhile (\<lambda>c. c \<noteq> CHR ''/'') (rev p)))"

definition is_directory :: "fs \<Rightarrow> string \<Rightarrow> bool" where
  "is_directory s q = (q = [] \<or> (case s q of Some (Dir es) \<Rightarrow> True | _ \<Rightarrow> False))"

text \<open>
  \<^verbatim>\<open>std::ofstream(p) << text\<close>: the stream does not throw. An existing file is overwritten.
  Opening fails, and nothing is written, when the path is a directory, or when nothing is
  there and the parent is missing or is not a directory.
\<close>

definition write_file :: "fs \<Rightarrow> string \<Rightarrow> json \<Rightarrow> fs" where
  "write_file s p j =
     (case s p of
        Some (Dir es) \<Rightarrow> s
      | Some _ \<Rightarrow> s(p \<mapsto> File_json j)
      | None \<Rightarrow> if p \<noteq> [] \<and> is_directory s (parent_path p) then s(p \<mapsto> File_json j) else s)"

text \<open>\<^verbatim>\<open>std::filesystem::remove\<close>: no error when nothing is there; a directory that is not
  empty throws (\<open>None\<close>).\<close>

definition fs_remove :: "fs \<Rightarrow> string \<Rightarrow> fs option" where
  "fs_remove s p = (case s p of Some (Dir (e # es)) \<Rightarrow> None | _ \<Rightarrow> Some (s(p := None)))"

text \<open>\<^verbatim>\<open>std::filesystem::remove_all\<close>.\<close>

definition fs_remove_all :: "fs \<Rightarrow> string \<Rightarrow> fs" where
  "fs_remove_all s p = s(p := None)"

text \<open>\<^verbatim>\<open>std::filesystem::rename\<close> (POSIX): a file replaces a file, a directory replaces an
  empty directory, every other clash throws (\<open>None\<close>), as does a missing source and a
  new path whose parent is missing or is not a directory.\<close>

definition fs_rename :: "fs \<Rightarrow> string \<Rightarrow> string \<Rightarrow> fs option" where
  "fs_rename s a b =
     (case s a of
        None \<Rightarrow> None
      | Some n \<Rightarrow>
          if a = b then Some s
          else (case (n, s b) of
                  (_, None) \<Rightarrow>
                    if b \<noteq> [] \<and> is_directory s (parent_path b)
                    then Some (s(a := None, b \<mapsto> n)) else None
                | (Dir es, Some (Dir [])) \<Rightarrow> Some (s(a := None, b \<mapsto> n))
                | (Dir es, Some _) \<Rightarrow> None
                | (_, Some (Dir es')) \<Rightarrow> None
                | (_, Some _) \<Rightarrow> Some (s(a := None, b \<mapsto> n))))"

text \<open>
  \<^verbatim>\<open>std::filesystem::create_directories\<close>: the empty path throws (\<open>None\<close>); otherwise every
  missing directory on the way to the path is made, the path itself last, and a file in
  the way throws. The directories on the way are the prefixes of the path that end before
  a \<open>/\<close>.
\<close>

definition ancestors :: "string \<Rightarrow> string list" where
  "ancestors p =
     filter (\<lambda>q. q \<noteq> []) (map (\<lambda>i. take i p) (filter (\<lambda>i. p ! i = CHR ''/'') [0..<length p]))
     @ [p]"

fun make_dirs :: "string list \<Rightarrow> fs \<Rightarrow> fs option" where
  "make_dirs [] s = Some s"
| "make_dirs (q # qs) s =
     (case s q of
        None \<Rightarrow> make_dirs qs (s(q \<mapsto> Dir []))
      | Some (Dir es) \<Rightarrow> make_dirs qs s
      | Some _ \<Rightarrow> None)"

definition create_directories :: "fs \<Rightarrow> string \<Rightarrow> fs option" where
  "create_directories s p = (if p = [] then None else make_dirs (ancestors p) s)"

section \<open>Broker: clearing the stage flags\<close>

text \<open>The Broker's own \<^verbatim>\<open>ProjectSettings\<close> struct: the four stage flags.\<close>

record ProjectSettingsB =
  ps_graphSerialized :: bool
  ps_verilogGenerated :: bool
  ps_quartusCompiled :: bool
  ps_writtenToDB :: bool

text \<open>The four conditional assignments of \<^verbatim>\<open>uncheckMetadata\<close>, in the source's order.\<close>

definition uncheck :: "int \<Rightarrow> ProjectSettingsB \<Rightarrow> ProjectSettingsB" where
  "uncheck stage ps =
     (let ps = (if stage \<le> 3 then ps\<lparr>ps_writtenToDB := False\<rparr> else ps);
          ps = (if stage \<le> 2 then ps\<lparr>ps_quartusCompiled := False\<rparr> else ps);
          ps = (if stage \<le> 1 then ps\<lparr>ps_verilogGenerated := False\<rparr> else ps);
          ps = (if stage = 0 then ps\<lparr>ps_graphSerialized := False\<rparr> else ps)
      in ps)"

text \<open>Reading the four flags out of the document, and writing them back into it.\<close>

definition read_flags :: "json \<Rightarrow> ProjectSettingsB option" where
  "read_flags j = do {
     g \<leftarrow> read_flag j ''graphVerilogMetadata'' ''graphSerialized'';
     v \<leftarrow> read_flag j ''graphVerilogMetadata'' ''verilogGenerated'';
     q \<leftarrow> read_flag j ''quartusMetadata'' ''quartusCompiled'';
     d \<leftarrow> read_flag j ''databaseMetadata'' ''writtenToDB'';
     Some \<lparr> ps_graphSerialized = g, ps_verilogGenerated = v,
            ps_quartusCompiled = q, ps_writtenToDB = d \<rparr> }"

definition write_flags :: "json \<Rightarrow> ProjectSettingsB \<Rightarrow> json option" where
  "write_flags j ps = do {
     j \<leftarrow> write_flag j ''graphVerilogMetadata'' ''graphSerialized'' (ps_graphSerialized ps);
     j \<leftarrow> write_flag j ''graphVerilogMetadata'' ''verilogGenerated'' (ps_verilogGenerated ps);
     j \<leftarrow> write_flag j ''quartusMetadata'' ''quartusCompiled'' (ps_quartusCompiled ps);
     write_flag j ''databaseMetadata'' ''writtenToDB'' (ps_writtenToDB ps) }"

text \<open>
  \<^verbatim>\<open>uncheckMetadata(jsonPath, stage)\<close>. A missing file is reported and left alone. A file
  that does not parse, or lacks one of the four boolean flags, throws out of the function;
  nothing in the Broker catches it, so the result is \<open>None\<close>.
\<close>

definition uncheckMetadata :: "string \<Rightarrow> int \<Rightarrow> fs \<Rightarrow> (event list \<times> fs) option" where
  "uncheckMetadata jsonPath stage s =
     (if \<not> exists_path s jsonPath
      then Some ([Err (''Metadata file not found: '' @ jsonPath)], s)
      else (case s jsonPath of
              Some (File_json j) \<Rightarrow> do {
                ps \<leftarrow> read_flags j;
                j' \<leftarrow> write_flags j (uncheck stage ps);
                Some ([], write_file s jsonPath j') }
            | _ \<Rightarrow> None))"

section \<open>Broker: running external tools\<close>

text \<open>
  The operating system is a parameter: running a command line in a file system gives the
  wait status of \<^verbatim>\<open>system()\<close> and the file system the command leaves. The tools are
  opaque; the Linux branch of the source is the one modelled.
\<close>

type_synonym system = "string \<Rightarrow> fs \<Rightarrow> int \<times> fs"

text \<open>The macro of \<^verbatim>\<open><sys/wait.h>\<close>: bits 8 to 15 of the wait status.\<close>

definition WEXITSTATUS :: "int \<Rightarrow> int" where
  "WEXITSTATUS status = (status div 256) mod 256"

definition runProcess :: "system \<Rightarrow> string \<Rightarrow> fs \<Rightarrow> int \<times> event list \<times> fs" where
  "runProcess sys command s =
     (let (ret, s') = sys command s
      in (WEXITSTATUS ret, [Out (''Executing: '' @ command), Launch command], s'))"

definition manager_exec :: string where
  "manager_exec = ''../../../../../Project_manager/Project_manager''"

definition veriloger_exec :: string where
  "veriloger_exec = ''../../../../../Graph_verilog_generator/Graph_verilog_generator''"

definition quartus_exec :: string where
  "quartus_exec = ''../../../../../Quartus_compiler/Quartus_compiler''"

definition db_exec :: string where
  "db_exec = ''../../../../../Database_writer/Database_writer''"

section \<open>Broker: the command line\<close>

record broker_vars =
  launch_manager :: bool
  launch_graph :: bool
  launch_quartus :: bool
  launch_db :: bool
  project_name :: string
  project_location :: string
  project_new_name :: string
  project_action :: string
  graph_args :: string
  quartus_args :: string
  db_args :: string
  key_arg :: string

definition initial_vars :: broker_vars where
  "initial_vars =
     \<lparr> launch_manager = False, launch_graph = False, launch_quartus = False, launch_db = False,
       project_name = [], project_location = [], project_new_name = [], project_action = ''o'',
       graph_args = [], quartus_args = [], db_args = [], key_arg = [] \<rparr>"

text \<open>
  The \<^verbatim>\<open>for\<close> loop over \<^verbatim>\<open>args\<close> is \<open>parse_args\<close> on the arguments still to read, and the
  \<^verbatim>\<open>while\<close> loop after \<^verbatim>\<open>--project\<close> is \<open>parse_project\<close>. The inner loop reads the value of
  \<^verbatim>\<open>-n\<close>, \<^verbatim>\<open>-l\<close> and \<^verbatim>\<open>-r\<close> with \<^verbatim>\<open>args[++i]\<close> unchecked: past the end that is undefined
  behaviour, which no \<^verbatim>\<open>catch\<close> sees. On an argument it does not know it steps back and
  hands that argument to the outer loop. \<open>Inl\<close> is a run that ends inside the loop.
\<close>

fun parse_args :: "fs \<Rightarrow> string list \<Rightarrow> broker_vars \<Rightarrow> (outcome \<times> event list) + broker_vars"
  and parse_project :: "fs \<Rightarrow> string list \<Rightarrow> broker_vars \<Rightarrow> (outcome \<times> event list) + broker_vars"
where
  "parse_args s [] v = Inr v"
| "parse_args s (arg # rest) v =
     (if arg = ''--project'' then parse_project s rest (v\<lparr>launch_manager := True\<rparr>)
      else if arg = ''--graph'' then parse_args s rest (v\<lparr>launch_graph := True, key_arg := arg\<rparr>)
      else if arg = ''--quartus'' then parse_args s rest (v\<lparr>launch_quartus := True, key_arg := arg\<rparr>)
      else if arg = ''--database'' then parse_args s rest (v\<lparr>launch_db := True, key_arg := arg\<rparr>)
      else if arg = ''-h'' \<or> arg = ''--help'' then
        Inl (Exit 0, [if exists_path s ''help.txt'' then Copy_out ''help.txt''
                      else Err ''help.txt not found.\<newline>''])
      else if key_arg v = [] then
        Inl (Exit 1, [Err (''Invalid argument: '' @ arg @ ''\<newline>'')])
      else if key_arg v = ''--graph'' then
        parse_args s rest (v\<lparr>graph_args := graph_args v @ '' '' @ arg\<rparr>)
      else if key_arg v = ''--quartus'' then
        parse_args s rest (v\<lparr>quartus_args := quartus_args v @ '' '' @ arg\<rparr>)
      else if key_arg v = ''--database'' then
        parse_args s rest (v\<lparr>db_args := db_args v @ '' '' @ arg\<rparr>)
      else parse_args s rest v)"
| "parse_project s [] v = Inr v"
| "parse_project s (next # rest) v =
     (if next = ''-n'' \<or> next = ''--name'' then
        (case rest of
           [] \<Rightarrow> Inl (Undefined, [])
         | x # rest' \<Rightarrow> parse_project s rest' (v\<lparr>project_name := x\<rparr>))
      else if next = ''-l'' \<or> next = ''--location'' then
        (case rest of
           [] \<Rightarrow> Inl (Undefined, [])
         | x # rest' \<Rightarrow> parse_project s rest' (v\<lparr>project_location := x\<rparr>))
      else if next = ''-o'' \<or> next = ''--open'' then parse_project s rest (v\<lparr>project_action := ''o''\<rparr>)
      else if next = ''-c'' \<or> next = ''--create'' then parse_project s rest (v\<lparr>project_action := ''c''\<rparr>)
      else if next = ''-e'' \<or> next = ''--erase'' then parse_project s rest (v\<lparr>project_action := ''e''\<rparr>)
      else if next = ''-r'' \<or> next = ''--rename'' then
        (case rest of
           [] \<Rightarrow> Inl (Undefined, [])
         | x # rest' \<Rightarrow> parse_project s rest' (v\<lparr>project_action := ''r'', project_new_name := x\<rparr>))
      else parse_args s (next # rest) v)"

section \<open>Broker: the stages\<close>

definition metadata_path :: "broker_vars \<Rightarrow> string" where
  "metadata_path v = project_location v @ ''/'' @ project_name v @ ''_metadata.json''"

text \<open>The command lines that \<^verbatim>\<open>main\<close> assembles in its four string streams. The Quartus
  command does not carry \<^verbatim>\<open>quartus_args\<close>.\<close>

definition manager_command :: "broker_vars \<Rightarrow> string" where
  "manager_command v =
     manager_exec @ '' -l '' @ project_location v @ '' -n '' @ project_name v
       @ '' -'' @ project_action v
       @ (if project_action v = ''r'' then '' '' @ project_new_name v else [])"

definition graph_command :: "broker_vars \<Rightarrow> string" where
  "graph_command v =
     veriloger_exec @ '' -l '' @ project_location v @ '' -n '' @ project_name v @ graph_args v"

definition quartus_command :: "broker_vars \<Rightarrow> string" where
  "quartus_command v = quartus_exec @ '' -l '' @ project_location v @ '' -n '' @ project_name v"

definition db_command :: "broker_vars \<Rightarrow> string" where
  "db_command v =
     db_exec @ '' -l '' @ project_location v @ '' -n '' @ project_name v @ db_args v"

text \<open>
  The four \<^verbatim>\<open>if (launch_...)\<close> blocks of \<^verbatim>\<open>main\<close>. A block either ends the run (\<open>Inl\<close>: the
  outcome, what the block printed and the file system it leaves) or hands over to the next
  block (\<open>Inr\<close>). The project block may change \<^verbatim>\<open>project_name\<close>.
\<close>

definition project_step ::
  "system \<Rightarrow> broker_vars \<Rightarrow> fs \<Rightarrow> (outcome \<times> event list \<times> fs) + (broker_vars \<times> event list \<times> fs)" where
  "project_step sys v s =
     (if launch_manager v then
        (let (res, e2, s2) = runProcess sys (manager_command v) s
         in if res \<noteq> 0
            then Inl (Exit 1, e2 @ [Err ''Project_manager failure.\<newline>''], s2)
            else Inr (if project_action v = ''r'' then v\<lparr>project_name := project_new_name v\<rparr> else v,
                      e2 @ [Out ''Project_manager success.\<newline>''], s2))
      else Inr (v, [], s))"

definition graph_step ::
  "system \<Rightarrow> broker_vars \<Rightarrow> fs \<Rightarrow> (outcome \<times> event list \<times> fs) + (event list \<times> fs)" where
  "graph_step sys v s =
     (if launch_graph v then
        (case uncheckMetadata (metadata_path v) 0 s of
           None \<Rightarrow> Inl (Abort, [], s)
         | Some (e1, s1) \<Rightarrow>
             (let (res, e2, s2) = runProcess sys (graph_command v) s1
              in if res \<noteq> 0
                 then Inl (Exit 1, e1 @ e2 @ [Err ''Graph_verilog_generator failure.\<newline>''], s2)
                 else Inr (e1 @ e2 @ [Out ''Graph_verilog_generator success.\<newline>''], s2)))
      else Inr ([], s))"

definition quartus_step ::
  "system \<Rightarrow> broker_vars \<Rightarrow> fs \<Rightarrow> (outcome \<times> event list \<times> fs) + (event list \<times> fs)" where
  "quartus_step sys v s =
     (if launch_quartus v then
        (case uncheckMetadata (metadata_path v) 2 s of
           None \<Rightarrow> Inl (Abort, [], s)
         | Some (e1, s1) \<Rightarrow>
             (let (res, e2, s2) = runProcess sys (quartus_command v) s1
              in if res \<noteq> 0
                 then Inl (Exit 1, e1 @ e2 @ [Err ''Quartus_compiler failure.\<newline>''], s2)
                 else Inr (e1 @ e2 @ [Out ''Quartus_compiler success.\<newline>''], s2)))
      else Inr ([], s))"

definition db_step ::
  "system \<Rightarrow> broker_vars \<Rightarrow> fs \<Rightarrow> (outcome \<times> event list \<times> fs) + (event list \<times> fs)" where
  "db_step sys v s =
     (if launch_db v then
        (case uncheckMetadata (metadata_path v) 3 s of
           None \<Rightarrow> Inl (Abort, [], s)
         | Some (e1, s1) \<Rightarrow>
             (let (res, e2, s2) = runProcess sys (db_command v) s1
              in if res \<noteq> 0
                 then Inl (Exit 1, e1 @ e2 @ [Err ''Database_writer failure.\<newline>''], s2)
                 else Inr (e1 @ e2 @ [Out ''Database_writer success.\<newline>''], s2)))
      else Inr ([], s))"

text \<open>The blocks in the order \<^verbatim>\<open>main\<close> has them; a run that passes all four returns 0.\<close>

definition run_stages :: "system \<Rightarrow> broker_vars \<Rightarrow> fs \<Rightarrow> outcome \<times> event list \<times> fs" where
  "run_stages sys v s =
     (case project_step sys v s of
        Inl (oc, ev, s') \<Rightarrow> (oc, ev, s')
      | Inr (v, ev0, s0) \<Rightarrow>
          (case graph_step sys v s0 of
             Inl (oc, ev, s') \<Rightarrow> (oc, ev0 @ ev, s')
           | Inr (ev1, s1) \<Rightarrow>
               (case quartus_step sys v s1 of
                  Inl (oc, ev, s') \<Rightarrow> (oc, ev0 @ ev1 @ ev, s')
                | Inr (ev2, s2) \<Rightarrow>
                    (case db_step sys v s2 of
                       Inl (oc, ev, s') \<Rightarrow> (oc, ev0 @ ev1 @ ev2 @ ev, s')
                     | Inr (ev3, s3) \<Rightarrow> (Exit 0, ev0 @ ev1 @ ev2 @ ev3, s3)))))"

text \<open>The Broker's \<^verbatim>\<open>main\<close> on \<^verbatim>\<open>argv[1..]\<close>.\<close>

definition broker_main :: "system \<Rightarrow> string list \<Rightarrow> fs \<Rightarrow> outcome \<times> event list \<times> fs" where
  "broker_main sys args s =
     (if args = [] then (Exit 0, [Out ''Use --help to see usage information.\<newline>''], s)
      else (case parse_args s args initial_vars of
              Inl (oc, ev) \<Rightarrow> (oc, ev, s)
            | Inr v \<Rightarrow> run_stages sys v s))"

section \<open>Project\_manager\<close>

text \<open>The locals of \<^verbatim>\<open>main\<close> that the command line sets: \<^verbatim>\<open>location\<close>, \<^verbatim>\<open>name\<close>,
  \<^verbatim>\<open>action\<close> and \<^verbatim>\<open>new_name\<close>.\<close>

record manager_vars =
  m_location :: string
  m_name :: string
  m_action :: string
  m_new_name :: string

definition initial_manager_vars :: manager_vars where
  "initial_manager_vars = \<lparr> m_location = [], m_name = [], m_action = ''o'', m_new_name = [] \<rparr>"

text \<open>The loop over \<^verbatim>\<open>argv[1..]\<close>; \<open>Inl\<close> is the message printed before \<^verbatim>\<open>exit(1)\<close>.\<close>

fun manager_parse :: "string list \<Rightarrow> manager_vars \<Rightarrow> string + manager_vars" where
  "manager_parse [] v = Inr v"
| "manager_parse (option # rest) v =
     (if option = ''-l'' \<or> option = ''--location'' then
        (case rest of
           [] \<Rightarrow> Inl ''No project location provided''
         | x # rest' \<Rightarrow> manager_parse rest' (v\<lparr>m_location := x\<rparr>))
      else if option = ''-n'' \<or> option = ''--name'' then
        (case rest of
           [] \<Rightarrow> Inl ''No project name provided''
         | x # rest' \<Rightarrow> manager_parse rest' (v\<lparr>m_name := x\<rparr>))
      else if option = ''-o'' \<or> option = ''--open'' then manager_parse rest (v\<lparr>m_action := ''o''\<rparr>)
      else if option = ''-c'' \<or> option = ''--create'' then manager_parse rest (v\<lparr>m_action := ''c''\<rparr>)
      else if option = ''-e'' \<or> option = ''--erase'' then manager_parse rest (v\<lparr>m_action := ''e''\<rparr>)
      else if option = ''-r'' \<or> option = ''--rename'' then
        (case rest of
           [] \<Rightarrow> Inl ''No new name provided''
         | x # rest' \<Rightarrow> manager_parse rest' (v\<lparr>m_action := ''r'', m_new_name := x\<rparr>))
      else Inl (''Argument '' @ option @ '' is invalid''))"

definition metadata_location :: "string \<Rightarrow> string \<Rightarrow> string" where
  "metadata_location location nm = location @ ''/'' @ nm @ ''_metadata.json''"

definition graph_location :: "string \<Rightarrow> string \<Rightarrow> string" where
  "graph_location location nm = location @ ''/'' @ nm @ ''_graph_object_serialized.json''"

definition verilog_location :: "string \<Rightarrow> string \<Rightarrow> string" where
  "verilog_location location nm = location @ ''/'' @ nm @ ''_NoC_description''"

text \<open>
  The \<^verbatim>\<open>try\<close> block of the rename: the new metadata file is written, the old one removed,
  then the graph file, the metadata file (gone by then, unless the names are equal) and the
  Verilog directory are moved where they exist. A throwing call ends the run with status 1
  and leaves what was done before it.
\<close>

definition manager_rename :: "manager_vars \<Rightarrow> ProjectSettings \<Rightarrow> fs \<Rightarrow> outcome \<times> event list \<times> fs" where
  "manager_rename v projectSettings s =
     (let location = m_location v; old = m_name v; new = m_new_name v;
          projectSettings = projectSettings\<lparr>projectMetadata := (projectMetadata projectSettings)\<lparr>name := new\<rparr>\<rparr>;
          failed = (\<lambda>s'. (Exit 1, [Out ''Failed to rename the project: ''], s'));
          s1 = write_file s (metadata_location location new) (to_json projectSettings)
      in case fs_remove s1 (metadata_location location old) of
           None \<Rightarrow> failed s1
         | Some s2 \<Rightarrow>
            (case (if exists_path s2 (graph_location location old)
                   then fs_rename s2 (graph_location location old) (graph_location location new)
                   else Some s2) of
               None \<Rightarrow> failed s2
             | Some s3 \<Rightarrow>
                (case (if exists_path s3 (metadata_location location old)
                       then fs_rename s3 (metadata_location location old) (metadata_location location new)
                       else Some s3) of
                   None \<Rightarrow> failed s3
                 | Some s4 \<Rightarrow>
                    (case (if exists_path s4 (verilog_location location old)
                           then fs_rename s4 (verilog_location location old) (verilog_location location new)
                           else Some s4) of
                       None \<Rightarrow> failed s4
                     | Some s5 \<Rightarrow> (Exit 0, [], s5)))))"

text \<open>The branch for the actions \<^verbatim>\<open>"o"\<close> and \<^verbatim>\<open>"r"\<close>. The text of \<^verbatim>\<open>e.what()\<close> is left out
  of the messages.\<close>

definition manager_open_rename :: "manager_vars \<Rightarrow> fs \<Rightarrow> outcome \<times> event list \<times> fs" where
  "manager_open_rename v s =
     (if \<not> exists_path s (m_location v) then (Exit 1, [Out ''Failed to find project directory''], s)
      else if \<not> exists_path s (metadata_location (m_location v) (m_name v))
      then (Exit 1, [Out ''Failed to find project metadata''], s)
      else (case s (metadata_location (m_location v) (m_name v)) of
              Some (File_json j) \<Rightarrow>
                (case from_json j of
                   None \<Rightarrow> (Exit 1, [Out ''Failed to read project metadata: ''], s)
                 | Some projectSettings \<Rightarrow>
                     if name (projectMetadata projectSettings) \<noteq> m_name v
                     then (Exit 1, [Out ''Wrong project name in the metadata. Manual fixing of the .json file is needed''], s)
                     else if m_action v = ''r'' then manager_rename v projectSettings s
                     else (Exit 0, [], s))
            | _ \<Rightarrow> (Exit 1, [Out ''Failed to read project metadata: ''], s)))"

text \<open>The branch for the action \<^verbatim>\<open>"c"\<close>.\<close>

definition manager_create :: "manager_vars \<Rightarrow> fs \<Rightarrow> outcome \<times> event list \<times> fs" where
  "manager_create v s =
     (case (if \<not> exists_path s (m_location v) then create_directories s (m_location v) else Some s) of
        None \<Rightarrow> (Exit 1, [Out ''Failed to create a project directory: ''], s)
      | Some s1 \<Rightarrow>
          if exists_path s1 (metadata_location (m_location v) (m_name v))
          then (Exit 1, [Out ''This project already exists''], s1)
          else (let project_settings =
                      default_ProjectSettings\<lparr>projectMetadata :=
                        (projectMetadata default_ProjectSettings)\<lparr>name := m_name v\<rparr>\<rparr>
                in (Exit 0, [], write_file s1 (metadata_location (m_location v) (m_name v))
                                  (to_json project_settings))))"

text \<open>The branch for the action \<^verbatim>\<open>"e"\<close>.\<close>

definition manager_erase :: "manager_vars \<Rightarrow> fs \<Rightarrow> outcome \<times> event list \<times> fs" where
  "manager_erase v s =
     (let location = m_location v; nm = m_name v;
          failed = (\<lambda>s'. (Exit 1, [Out ''Failed to delete the project: ''], s'))
      in if \<not> exists_path s location then (Exit 0, [Out ''Non-existent directory''], s)
         else if \<not> exists_path s (metadata_location location nm)
         then (Exit 0, [Out ''Non-existent project''], s)
         else (case (if exists_path s (graph_location location nm)
                     then fs_remove s (graph_location location nm) else Some s) of
                 None \<Rightarrow> failed s
               | Some s1 \<Rightarrow>
                  (case (if exists_path s1 (metadata_location location nm)
                         then fs_remove s1 (metadata_location location nm) else Some s1) of
                     None \<Rightarrow> failed s1
                   | Some s2 \<Rightarrow>
                      (Exit 0, [],
                       if exists_path s2 (verilog_location location nm)
                       then fs_remove_all s2 (verilog_location location nm) else s2))))"

text \<open>Project\_manager's \<^verbatim>\<open>main\<close> on \<^verbatim>\<open>argv[1..]\<close>; falling off its end returns 0.\<close>

definition manager_main :: "string list \<Rightarrow> fs \<Rightarrow> outcome \<times> event list \<times> fs" where
  "manager_main args s =
     (case manager_parse args initial_manager_vars of
        Inl msg \<Rightarrow> (Exit 1, [Out msg], s)
      | Inr v \<Rightarrow>
          if m_action v = ''o'' \<or> m_action v = ''r'' then manager_open_rename v s
          else if m_action v = ''c'' then manager_create v s
          else if m_action v = ''e'' then manager_erase v s
          else (Exit 0, [], s))"

section \<open>Reading the stored record\<close>

text \<open>What Project\_manager reads back from a path: \<^verbatim>\<open>readFile\<close>, \<^verbatim>\<open>json::parse\<close> and
  \<^verbatim>\<open>get<ProjectSettings>\<close>, with \<open>None\<close> for every failure.\<close>

definition load_record :: "fs \<Rightarrow> string \<Rightarrow> ProjectSettings option" where
  "load_record s p = (case s p of Some (File_json j) \<Rightarrow> from_json j | _ \<Rightarrow> None)"

text \<open>The four stage flags of a record as the Broker's struct, and a record with its flags
  replaced.\<close>

definition flags_of :: "ProjectSettings \<Rightarrow> ProjectSettingsB" where
  "flags_of r =
     \<lparr> ps_graphSerialized = graphSerialized (graphVerilogMetadata r),
       ps_verilogGenerated = verilogGenerated (graphVerilogMetadata r),
       ps_quartusCompiled = quartusCompiled (quartusMetadata r),
       ps_writtenToDB = writtenToDB (databaseMetadata r) \<rparr>"

definition with_flags :: "ProjectSettings \<Rightarrow> ProjectSettingsB \<Rightarrow> ProjectSettings" where
  "with_flags r f =
     r\<lparr> graphVerilogMetadata :=
          (graphVerilogMetadata r)\<lparr> graphSerialized := ps_graphSerialized f,
                                    verilogGenerated := ps_verilogGenerated f \<rparr>,
        quartusMetadata := (quartusMetadata r)\<lparr> quartusCompiled := ps_quartusCompiled f \<rparr>,
        databaseMetadata := (databaseMetadata r)\<lparr> writtenToDB := ps_writtenToDB f \<rparr> \<rparr>"

text \<open>The flags in pipeline order, and the prefix-closure invariant of the data model: a
  flag that is set has every earlier flag set.\<close>

definition stage_flags :: "ProjectSettings \<Rightarrow> bool list" where
  "stage_flags r =
     [graphSerialized (graphVerilogMetadata r), verilogGenerated (graphVerilogMetadata r),
      quartusCompiled (quartusMetadata r), writtenToDB (databaseMetadata r)]"

definition prefix_closed :: "ProjectSettings \<Rightarrow> bool" where
  "prefix_closed r =
     (\<forall>k \<in> {..<length (stage_flags r)}. stage_flags r ! k \<longrightarrow> (\<forall>i \<in> {..<k}. stage_flags r ! i))"

section \<open>Vocabulary of the properties\<close>

text \<open>The three pipeline stages a caller can request, with the flag, the number handed to
  \<^verbatim>\<open>uncheckMetadata\<close>, the command and the block that \<^verbatim>\<open>main\<close> has for each.\<close>

datatype stage = Graph | Quartus | Database

fun requested :: "stage \<Rightarrow> broker_vars \<Rightarrow> bool" where
  "requested Graph v = launch_graph v"
| "requested Quartus v = launch_quartus v"
| "requested Database v = launch_db v"

fun stage_number :: "stage \<Rightarrow> int" where
  "stage_number Graph = 0"
| "stage_number Quartus = 2"
| "stage_number Database = 3"

fun stage_command :: "stage \<Rightarrow> broker_vars \<Rightarrow> string" where
  "stage_command Graph v = graph_command v"
| "stage_command Quartus v = quartus_command v"
| "stage_command Database v = db_command v"

fun stage_step ::
  "stage \<Rightarrow> system \<Rightarrow> broker_vars \<Rightarrow> fs \<Rightarrow> (outcome \<times> event list \<times> fs) + (event list \<times> fs)" where
  "stage_step Graph = graph_step"
| "stage_step Quartus = quartus_step"
| "stage_step Database = db_step"

fun success_message :: "stage \<Rightarrow> string" where
  "success_message Graph = ''Graph_verilog_generator success.\<newline>''"
| "success_message Quartus = ''Quartus_compiler success.\<newline>''"
| "success_message Database = ''Database_writer success.\<newline>''"

fun failure_message :: "stage \<Rightarrow> string" where
  "failure_message Graph = ''Graph_verilog_generator failure.\<newline>''"
| "failure_message Quartus = ''Quartus_compiler failure.\<newline>''"
| "failure_message Database = ''Database_writer failure.\<newline>''"

text \<open>
  Modelled from the spec: the flags a stage owns, which \<open>markComplete\<close> sets. No code of the
  Broker sets a flag; the spec gives the graph stage \<open>graphSerialized\<close> and
  \<open>verilogGenerated\<close>, the quartus stage \<open>quartusCompiled\<close> and the database stage
  \<open>writtenToDB\<close>, and leaves the setting to the stage's tool.
\<close>

fun markComplete :: "stage \<Rightarrow> ProjectSettingsB \<Rightarrow> ProjectSettingsB" where
  "markComplete Graph f = f\<lparr>ps_graphSerialized := True, ps_verilogGenerated := True\<rparr>"
| "markComplete Quartus f = f\<lparr>ps_quartusCompiled := True\<rparr>"
| "markComplete Database f = f\<lparr>ps_writtenToDB := True\<rparr>"

text \<open>The commands a run handed to the operating system, in order.\<close>

fun launched :: "event list \<Rightarrow> string list" where
  "launched [] = []"
| "launched (Launch c # ev) = c # launched ev"
| "launched (e # ev) = launched ev"

text \<open>Which tool a command line starts, by its executable: 0 for Project\_manager, then the
  pipeline position of the stage.\<close>

definition tool_rank :: "string \<Rightarrow> nat" where
  "tool_rank c =
     (if prefix manager_exec c then 0
      else if prefix veriloger_exec c then 1
      else if prefix quartus_exec c then 2
      else if prefix db_exec c then 3
      else 4)"

text \<open>The variables as the stage blocks see them: after a rename the new name.\<close>

definition after_project :: "broker_vars \<Rightarrow> broker_vars" where
  "after_project v =
     (if launch_manager v \<and> project_action v = ''r''
      then v\<lparr>project_name := project_new_name v\<rparr> else v)"

text \<open>The commands of the requested tools in the order of the blocks of \<^verbatim>\<open>main\<close>.\<close>

definition plan :: "broker_vars \<Rightarrow> string list" where
  "plan v =
     (if launch_manager v then [manager_command v] else [])
     @ (if launch_graph v then [graph_command (after_project v)] else [])
     @ (if launch_quartus v then [quartus_command (after_project v)] else [])
     @ (if launch_db v then [db_command (after_project v)] else [])"

text \<open>The command-line words that choose an action.\<close>

definition action_flags :: "string set" where
  "action_flags = {''-o'', ''--open'', ''-c'', ''--create'', ''-e'', ''--erase'', ''-r'', ''--rename''}"

section \<open>Example inputs\<close>

text \<open>A project \<open>p\<close> in the directory \<open>d\<close> with all four stages complete, its graph file and its
  Verilog directory.\<close>

definition all_done :: ProjectSettings where
  "all_done =
     \<lparr> projectMetadata = \<lparr> name = ''p'' \<rparr>,
       graphVerilogMetadata = \<lparr> graphSerialized = True, verilogGenerated = True \<rparr>,
       quartusMetadata = \<lparr> quartusCompiled = True, deviceName = ''5CGXFC9E7F35C8'' \<rparr>,
       databaseMetadata = \<lparr> dbIp = ''10.0.0.1'', dbUsername = ''noc'', dbPassword = ''pw'',
                            dbName = ''results'', dbPort = 5432, writtenToDB = True \<rparr> \<rparr>"

definition demo_path :: string where
  "demo_path = ''d/p_metadata.json''"

definition demo_fs :: fs where
  "demo_fs =
     [''d'' \<mapsto> Dir [''p_metadata.json'', ''p_graph_object_serialized.json'', ''p_NoC_description''],
      ''d/p_metadata.json'' \<mapsto> File_json (to_json all_done),
      ''d/p_graph_object_serialized.json'' \<mapsto> File_text ''graph'',
      ''d/p_NoC_description'' \<mapsto> Dir [''noc.v'']]"

text \<open>An operating system in which every command exits with status 0 and touches no file.\<close>

definition idle_system :: system where
  "idle_system c s = (0, s)"

text \<open>A tool that does what the spec expects of a successful stage tool: it sets the flags
  its stage owns in the stored record and leaves the rest of the record alone.\<close>

definition mark_in_file :: "stage \<Rightarrow> string \<Rightarrow> fs \<Rightarrow> fs" where
  "mark_in_file st p s =
     (case load_record s p of
        Some r \<Rightarrow> s(p \<mapsto> File_json (to_json (with_flags r (markComplete st (flags_of r)))))
      | None \<Rightarrow> s)"

text \<open>An operating system whose three stage tools do so for the project \<open>p\<close> and exit with
  status 0, as does Project\_manager.\<close>

definition marking_system :: system where
  "marking_system c s =
     (0, if prefix veriloger_exec c then mark_in_file Graph demo_path s
         else if prefix quartus_exec c then mark_in_file Quartus demo_path s
         else if prefix db_exec c then mark_in_file Database demo_path s
         else s)"

text \<open>The same, except that the Quartus compiler fails: exit status 1 (wait status 256), no
  file touched.\<close>

definition failing_quartus_system :: system where
  "failing_quartus_system c s = (if prefix quartus_exec c then (256, s) else marking_system c s)"

text \<open>An operating system whose Quartus compiler keeps its build: the first run creates the
  build directory and sets \<open>quartusCompiled\<close>; a run that finds the build directory has
  nothing to do and exits with status 0 at once.\<close>

definition caching_system :: system where
  "caching_system c s =
     (if prefix quartus_exec c \<and> s ''d/p_build'' = None
      then (0, (mark_in_file Quartus demo_path s)(''d/p_build'' \<mapsto> Dir [''p.sof'']))
      else (0, s))"

text \<open>The Broker's variables after \<^verbatim>\<open>--project -n p -l d --graph --quartus --database\<close>.\<close>

definition demo_vars :: broker_vars where
  "demo_vars =
     \<lparr> launch_manager = True, launch_graph = True, launch_quartus = True, launch_db = True,
       project_name = ''p'', project_location = ''d'', project_new_name = [],
       project_action = ''o'', graph_args = [], quartus_args = [], db_args = [],
       key_arg = ''--database'' \<rparr>"

text \<open>The same as \<open>marking_system\<close>, except that the Quartus compiler sets its flag in the
  stored record and then fails with exit status 1.\<close>

definition flag_then_fail_system :: system where
  "flag_then_fail_system c s =
     (if prefix quartus_exec c then (256, mark_in_file Quartus demo_path s)
      else marking_system c s)"

section \<open>JSON documents and records\<close>

lemma from_json_to_json: "from_json (to_json ps) = Some ps"
  by (simp add: from_json_def to_json_def jat_def
      from_json_ProjectMetadata_def to_json_ProjectMetadata_def
      from_json_GraphVerilogMetadata_def to_json_GraphVerilogMetadata_def
      from_json_QuartusMetadata_def to_json_QuartusMetadata_def
      from_json_DatabaseMetadata_def to_json_DatabaseMetadata_def
      get_bool_def get_string_def get_int_def)

lemma jat_jassign:
  assumes "jat j k = Some x"
  shows "\<exists>j'. jassign j k v = Some j' \<and> (\<forall>k'. jat j' k' = (if k' = k then Some v else jat j k'))"
  using assms by (cases j) (auto simp: jat_def jassign_def update_conv')

lemma jindex_jat: "jat j k = Some x \<Longrightarrow> jindex j k = Some x"
  by (cases j) (auto simp: jat_def jindex_def)

lemma write_flag_jat:
  assumes "jat j k1 = Some g" and "jat g k2 = Some x"
  shows "\<exists>j' g'. write_flag j k1 k2 b = Some j'
           \<and> (\<forall>k. jat j' k = (if k = k1 then Some g' else jat j k))
           \<and> (\<forall>k. jat g' k = (if k = k2 then Some (JBool b) else jat g k))"
proof -
  from jat_jassign [OF assms(2), of "JBool b"] obtain g'
    where g': "jassign g k2 (JBool b) = Some g'"
      "\<forall>k. jat g' k = (if k = k2 then Some (JBool b) else jat g k)" by blast
  from jat_jassign [OF assms(1), of g'] obtain j'
    where j': "jassign j k1 g' = Some j'"
      "\<forall>k. jat j' k = (if k = k1 then Some g' else jat j k)" by blast
  have "write_flag j k1 k2 b = Some j'"
    by (simp add: write_flag_def jindex_jat [OF assms(1)] g' j')
  with g' j' show ?thesis by blast
qed

lemma read_flag_jat:
  "jat j k1 = Some g \<Longrightarrow> jat g k2 = Some (JBool b) \<Longrightarrow> read_flag j k1 k2 = Some b"
  by (simp add: read_flag_def jindex_jat get_bool_def)

lemma get_bool_Some: "get_bool x = Some b \<longleftrightarrow> x = JBool b"
  by (cases x) (auto simp: get_bool_def)

lemma prefix_closed_iff:
  "prefix_closed r \<longleftrightarrow>
     (verilogGenerated (graphVerilogMetadata r) \<longrightarrow> graphSerialized (graphVerilogMetadata r)) \<and>
     (quartusCompiled (quartusMetadata r) \<longrightarrow> verilogGenerated (graphVerilogMetadata r)) \<and>
     (writtenToDB (databaseMetadata r) \<longrightarrow> quartusCompiled (quartusMetadata r))"
  by (auto simp: prefix_closed_def stage_flags_def lessThan_Suc numeral_eq_Suc nth_Cons')


lemma from_json_GraphVerilogMetadata_upd1:
  assumes "\<forall>k. jat g' k = (if k = ''graphSerialized'' then Some (JBool b) else jat g k)"
    and "from_json_GraphVerilogMetadata g = Some m"
  shows "from_json_GraphVerilogMetadata g' = Some (m\<lparr>graphSerialized := b\<rparr>)"
  using assms(2) by (auto simp: from_json_GraphVerilogMetadata_def assms(1) bind_eq_Some_conv get_bool_def)

lemma from_json_GraphVerilogMetadata_upd2:
  assumes "\<forall>k. jat g' k = (if k = ''verilogGenerated'' then Some (JBool b) else jat g k)"
    and "from_json_GraphVerilogMetadata g = Some m"
  shows "from_json_GraphVerilogMetadata g' = Some (m\<lparr>verilogGenerated := b\<rparr>)"
  using assms(2) by (auto simp: from_json_GraphVerilogMetadata_def assms(1) bind_eq_Some_conv get_bool_def)

lemma from_json_QuartusMetadata_upd:
  assumes "\<forall>k. jat g' k = (if k = ''quartusCompiled'' then Some (JBool b) else jat g k)"
    and "from_json_QuartusMetadata g = Some m"
  shows "from_json_QuartusMetadata g' = Some (m\<lparr>quartusCompiled := b\<rparr>)"
  using assms(2) by (auto simp: from_json_QuartusMetadata_def assms(1) bind_eq_Some_conv get_bool_def)

lemma from_json_DatabaseMetadata_upd:
  assumes "\<forall>k. jat g' k = (if k = ''writtenToDB'' then Some (JBool b) else jat g k)"
    and "from_json_DatabaseMetadata g = Some m"
  shows "from_json_DatabaseMetadata g' = Some (m\<lparr>writtenToDB := b\<rparr>)"
  using assms(2) by (auto simp: from_json_DatabaseMetadata_def assms(1) bind_eq_Some_conv get_bool_def)

lemma from_json_GraphVerilogMetadata_jat:
  assumes "from_json_GraphVerilogMetadata g = Some m"
  shows "jat g ''graphSerialized'' = Some (JBool (graphSerialized m))"
    and "jat g ''verilogGenerated'' = Some (JBool (verilogGenerated m))"
  using assms by (auto simp: from_json_GraphVerilogMetadata_def bind_eq_Some_conv get_bool_Some)

lemma from_json_QuartusMetadata_jat:
  assumes "from_json_QuartusMetadata g = Some m"
  shows "jat g ''quartusCompiled'' = Some (JBool (quartusCompiled m))"
  using assms by (auto simp: from_json_QuartusMetadata_def bind_eq_Some_conv get_bool_Some)

lemma from_json_DatabaseMetadata_jat:
  assumes "from_json_DatabaseMetadata g = Some m"
  shows "jat g ''writtenToDB'' = Some (JBool (writtenToDB m))"
  using assms by (auto simp: from_json_DatabaseMetadata_def bind_eq_Some_conv get_bool_Some)

lemma from_json_jat:
  assumes "from_json j = Some r"
  shows "\<exists>p g q d.
      jat j ''projectMetadata'' = Some p \<and> from_json_ProjectMetadata p = Some (projectMetadata r) \<and>
      jat j ''graphVerilogMetadata'' = Some g \<and> from_json_GraphVerilogMetadata g = Some (graphVerilogMetadata r) \<and>
      jat j ''quartusMetadata'' = Some q \<and> from_json_QuartusMetadata q = Some (quartusMetadata r) \<and>
      jat j ''databaseMetadata'' = Some d \<and> from_json_DatabaseMetadata d = Some (databaseMetadata r)"
  using assms by (auto simp: from_json_def bind_eq_Some_conv)

lemma from_json_upd_graph:
  assumes "\<forall>k. jat j' k = (if k = ''graphVerilogMetadata'' then Some g' else jat j k)"
    and "from_json j = Some r" and "from_json_GraphVerilogMetadata g' = Some m"
  shows "from_json j' = Some (r\<lparr>graphVerilogMetadata := m\<rparr>)"
  using assms(2,3) by (auto simp: from_json_def assms(1) bind_eq_Some_conv)

lemma from_json_upd_quartus:
  assumes "\<forall>k. jat j' k = (if k = ''quartusMetadata'' then Some g' else jat j k)"
    and "from_json j = Some r" and "from_json_QuartusMetadata g' = Some m"
  shows "from_json j' = Some (r\<lparr>quartusMetadata := m\<rparr>)"
  using assms(2,3) by (auto simp: from_json_def assms(1) bind_eq_Some_conv)

lemma from_json_upd_database:
  assumes "\<forall>k. jat j' k = (if k = ''databaseMetadata'' then Some g' else jat j k)"
    and "from_json j = Some r" and "from_json_DatabaseMetadata g' = Some m"
  shows "from_json j' = Some (r\<lparr>databaseMetadata := m\<rparr>)"
  using assms(2,3) by (auto simp: from_json_def assms(1) bind_eq_Some_conv)

lemma read_flags_record:
  assumes "from_json j = Some r"
  shows "read_flags j = Some (flags_of r)"
proof -
  from from_json_jat [OF assms] obtain p g q d where
    g: "jat j ''graphVerilogMetadata'' = Some g" "from_json_GraphVerilogMetadata g = Some (graphVerilogMetadata r)" and
    q: "jat j ''quartusMetadata'' = Some q" "from_json_QuartusMetadata q = Some (quartusMetadata r)" and
    d: "jat j ''databaseMetadata'' = Some d" "from_json_DatabaseMetadata d = Some (databaseMetadata r)"
    by blast
  show ?thesis
    by (simp add: read_flags_def flags_of_def
        read_flag_jat [OF g(1) from_json_GraphVerilogMetadata_jat(1) [OF g(2)]]
        read_flag_jat [OF g(1) from_json_GraphVerilogMetadata_jat(2) [OF g(2)]]
        read_flag_jat [OF q(1) from_json_QuartusMetadata_jat [OF q(2)]]
        read_flag_jat [OF d(1) from_json_DatabaseMetadata_jat [OF d(2)]])
qed

lemma write_graphSerialized:
  assumes "from_json j = Some r"
  shows "\<exists>j'. write_flag j ''graphVerilogMetadata'' ''graphSerialized'' b = Some j' \<and>
     from_json j' = Some (r\<lparr>graphVerilogMetadata := (graphVerilogMetadata r)\<lparr>graphSerialized := b\<rparr>\<rparr>)"
proof -
  from from_json_jat [OF assms] obtain g where
    g: "jat j ''graphVerilogMetadata'' = Some g" "from_json_GraphVerilogMetadata g = Some (graphVerilogMetadata r)"
    by blast
  from write_flag_jat [OF g(1) from_json_GraphVerilogMetadata_jat(1) [OF g(2)], of b]
  obtain j' g' where w: "write_flag j ''graphVerilogMetadata'' ''graphSerialized'' b = Some j'"
    "\<forall>k. jat j' k = (if k = ''graphVerilogMetadata'' then Some g' else jat j k)"
    "\<forall>k. jat g' k = (if k = ''graphSerialized'' then Some (JBool b) else jat g k)" by blast
  from from_json_upd_graph [OF w(2) assms from_json_GraphVerilogMetadata_upd1 [OF w(3) g(2)]] w(1)
  show ?thesis by blast
qed

lemma write_verilogGenerated:
  assumes "from_json j = Some r"
  shows "\<exists>j'. write_flag j ''graphVerilogMetadata'' ''verilogGenerated'' b = Some j' \<and>
     from_json j' = Some (r\<lparr>graphVerilogMetadata := (graphVerilogMetadata r)\<lparr>verilogGenerated := b\<rparr>\<rparr>)"
proof -
  from from_json_jat [OF assms] obtain g where
    g: "jat j ''graphVerilogMetadata'' = Some g" "from_json_GraphVerilogMetadata g = Some (graphVerilogMetadata r)"
    by blast
  from write_flag_jat [OF g(1) from_json_GraphVerilogMetadata_jat(2) [OF g(2)], of b]
  obtain j' g' where w: "write_flag j ''graphVerilogMetadata'' ''verilogGenerated'' b = Some j'"
    "\<forall>k. jat j' k = (if k = ''graphVerilogMetadata'' then Some g' else jat j k)"
    "\<forall>k. jat g' k = (if k = ''verilogGenerated'' then Some (JBool b) else jat g k)" by blast
  from from_json_upd_graph [OF w(2) assms from_json_GraphVerilogMetadata_upd2 [OF w(3) g(2)]] w(1)
  show ?thesis by blast
qed

lemma write_quartusCompiled:
  assumes "from_json j = Some r"
  shows "\<exists>j'. write_flag j ''quartusMetadata'' ''quartusCompiled'' b = Some j' \<and>
     from_json j' = Some (r\<lparr>quartusMetadata := (quartusMetadata r)\<lparr>quartusCompiled := b\<rparr>\<rparr>)"
proof -
  from from_json_jat [OF assms] obtain g where
    g: "jat j ''quartusMetadata'' = Some g" "from_json_QuartusMetadata g = Some (quartusMetadata r)"
    by blast
  from write_flag_jat [OF g(1) from_json_QuartusMetadata_jat [OF g(2)], of b]
  obtain j' g' where w: "write_flag j ''quartusMetadata'' ''quartusCompiled'' b = Some j'"
    "\<forall>k. jat j' k = (if k = ''quartusMetadata'' then Some g' else jat j k)"
    "\<forall>k. jat g' k = (if k = ''quartusCompiled'' then Some (JBool b) else jat g k)" by blast
  from from_json_upd_quartus [OF w(2) assms from_json_QuartusMetadata_upd [OF w(3) g(2)]] w(1)
  show ?thesis by blast
qed

lemma write_writtenToDB:
  assumes "from_json j = Some r"
  shows "\<exists>j'. write_flag j ''databaseMetadata'' ''writtenToDB'' b = Some j' \<and>
     from_json j' = Some (r\<lparr>databaseMetadata := (databaseMetadata r)\<lparr>writtenToDB := b\<rparr>\<rparr>)"
proof -
  from from_json_jat [OF assms] obtain g where
    g: "jat j ''databaseMetadata'' = Some g" "from_json_DatabaseMetadata g = Some (databaseMetadata r)"
    by blast
  from write_flag_jat [OF g(1) from_json_DatabaseMetadata_jat [OF g(2)], of b]
  obtain j' g' where w: "write_flag j ''databaseMetadata'' ''writtenToDB'' b = Some j'"
    "\<forall>k. jat j' k = (if k = ''databaseMetadata'' then Some g' else jat j k)"
    "\<forall>k. jat g' k = (if k = ''writtenToDB'' then Some (JBool b) else jat g k)" by blast
  from from_json_upd_database [OF w(2) assms from_json_DatabaseMetadata_upd [OF w(3) g(2)]] w(1)
  show ?thesis by blast
qed

lemma write_flags_record:
  assumes "from_json j = Some r"
  shows "\<exists>j'. write_flags j f = Some j' \<and> from_json j' = Some (with_flags r f)"
proof -
  from write_graphSerialized [OF assms] obtain j1 where
    j1: "write_flag j ''graphVerilogMetadata'' ''graphSerialized'' (ps_graphSerialized f) = Some j1"
      "from_json j1 = Some (r\<lparr>graphVerilogMetadata := (graphVerilogMetadata r)\<lparr>graphSerialized := ps_graphSerialized f\<rparr>\<rparr>)"
    by blast
  from write_verilogGenerated [OF j1(2)] obtain j2 where
    j2: "write_flag j1 ''graphVerilogMetadata'' ''verilogGenerated'' (ps_verilogGenerated f) = Some j2"
      "from_json j2 = Some (r\<lparr>graphVerilogMetadata := (graphVerilogMetadata r)\<lparr>graphSerialized := ps_graphSerialized f, verilogGenerated := ps_verilogGenerated f\<rparr>\<rparr>)"
    by fastforce
  from write_quartusCompiled [OF j2(2)] obtain j3 where
    j3: "write_flag j2 ''quartusMetadata'' ''quartusCompiled'' (ps_quartusCompiled f) = Some j3"
      "from_json j3 = Some (r\<lparr>graphVerilogMetadata := (graphVerilogMetadata r)\<lparr>graphSerialized := ps_graphSerialized f, verilogGenerated := ps_verilogGenerated f\<rparr>,
          quartusMetadata := (quartusMetadata r)\<lparr>quartusCompiled := ps_quartusCompiled f\<rparr>\<rparr>)"
    by fastforce
  from write_writtenToDB [OF j3(2)] obtain j4 where
    j4: "write_flag j3 ''databaseMetadata'' ''writtenToDB'' (ps_writtenToDB f) = Some j4"
      "from_json j4 = Some (with_flags r f)"
    unfolding with_flags_def by fastforce
  show ?thesis
    by (simp add: write_flags_def j1(1) j2(1) j3(1) j4)
qed

section \<open>What \<^verbatim>\<open>uncheckMetadata\<close> does to a stored record\<close>

lemma uncheckMetadata_record:
  assumes "load_record s p = Some r"
  shows "\<exists>s'. uncheckMetadata p stage s = Some ([], s')
           \<and> load_record s' p = Some (with_flags r (uncheck stage (flags_of r)))
           \<and> (\<forall>q. q \<noteq> p \<longrightarrow> s' q = s q)"
proof -
  from assms obtain j where j: "s p = Some (File_json j)" "from_json j = Some r"
    by (auto simp: load_record_def split: option.splits node.splits)
  from write_flags_record [OF j(2), of "uncheck stage (flags_of r)"] obtain j' where
    j': "write_flags j (uncheck stage (flags_of r)) = Some j'"
      "from_json j' = Some (with_flags r (uncheck stage (flags_of r)))" by blast
  have "uncheckMetadata p stage s = Some ([], s(p \<mapsto> File_json j'))"
    by (simp add: uncheckMetadata_def exists_path_def j read_flags_record [OF j(2)] j' write_file_def)
  moreover have "load_record (s(p \<mapsto> File_json j')) p = Some (with_flags r (uncheck stage (flags_of r)))"
    by (simp add: load_record_def j')
  ultimately show ?thesis by simp
qed

lemma stage_flags_with_flags:
  "stage_flags (with_flags r f) =
     [ps_graphSerialized f, ps_verilogGenerated f, ps_quartusCompiled f, ps_writtenToDB f]"
  by (simp add: stage_flags_def with_flags_def)

lemma uncheck_flags:
  "ps_graphSerialized (uncheck stage f) = (ps_graphSerialized f \<and> stage \<noteq> 0)"
  "ps_verilogGenerated (uncheck stage f) = (ps_verilogGenerated f \<and> 1 < stage)"
  "ps_quartusCompiled (uncheck stage f) = (ps_quartusCompiled f \<and> 2 < stage)"
  "ps_writtenToDB (uncheck stage f) = (ps_writtenToDB f \<and> 3 < stage)"
  by (auto simp: uncheck_def Let_def)

lemma upt_4: "[0..<4] = [0, 1, 2, 3]"
  by (simp add: upt_rec)

section \<open>Invalidation\<close>

text \<open>
  C3. For every stored project record, \<^verbatim>\<open>uncheckMetadata\<close> with the number of the quartus
  stage (2) clears \<open>quartusCompiled\<close> and \<open>writtenToDB\<close> and leaves \<open>graphSerialized\<close> and
  \<open>verilogGenerated\<close> as they were. For every stage number from 0 on, the flag at pipeline
  position \<open>k\<close> is cleared when \<open>k\<close> is at or after the stage number and kept when it is
  before.
\<close>

theorem uncheckMetadata_clears_from_stage:
  assumes "load_record s p = Some r"
  shows "(\<exists>s' r'. uncheckMetadata p 2 s = Some ([], s') \<and> load_record s' p = Some r' \<and>
            stage_flags r' = [graphSerialized (graphVerilogMetadata r),
                              verilogGenerated (graphVerilogMetadata r), False, False])
       \<and> (0 \<le> stage \<longrightarrow>
            (\<exists>s' r'. uncheckMetadata p stage s = Some ([], s') \<and> load_record s' p = Some r' \<and>
               stage_flags r' = map (\<lambda>k. stage_flags r ! k \<and> int k < stage) [0..<4]))"
proof (intro conjI impI)
  from uncheckMetadata_record [OF assms, of 2] obtain s' where
    s': "uncheckMetadata p 2 s = Some ([], s')"
      "load_record s' p = Some (with_flags r (uncheck 2 (flags_of r)))" by blast
  have "stage_flags (with_flags r (uncheck 2 (flags_of r))) =
          [graphSerialized (graphVerilogMetadata r), verilogGenerated (graphVerilogMetadata r), False, False]"
    by (simp add: stage_flags_with_flags uncheck_flags flags_of_def)
  with s' show "\<exists>s' r'. uncheckMetadata p 2 s = Some ([], s') \<and> load_record s' p = Some r' \<and>
            stage_flags r' = [graphSerialized (graphVerilogMetadata r),
                              verilogGenerated (graphVerilogMetadata r), False, False]"
    by blast
next
  assume nonneg: "0 \<le> stage"
  from uncheckMetadata_record [OF assms, of stage] obtain s' where
    s': "uncheckMetadata p stage s = Some ([], s')"
      "load_record s' p = Some (with_flags r (uncheck stage (flags_of r)))" by blast
  have "stage_flags (with_flags r (uncheck stage (flags_of r))) =
          map (\<lambda>k. stage_flags r ! k \<and> int k < stage) [0..<4]"
    using nonneg unfolding stage_flags_with_flags
    by (auto simp: uncheck_flags flags_of_def upt_4 stage_flags_def)
  with s' show "\<exists>s' r'. uncheckMetadata p stage s = Some ([], s') \<and> load_record s' p = Some r' \<and>
               stage_flags r' = map (\<lambda>k. stage_flags r ! k \<and> int k < stage) [0..<4]"
    by blast
qed

lemma load_demo: "load_record demo_fs demo_path = Some all_done"
  by (simp add: load_record_def demo_fs_def demo_path_def from_json_to_json)

theorem uncheckMetadata_clears_from_stage_witness:
  "load_record demo_fs demo_path = Some all_done \<and> (0::int) \<le> 1 \<and>
   (\<exists>s' r'. uncheckMetadata demo_path 1 demo_fs = Some ([], s') \<and> load_record s' demo_path = Some r' \<and>
       stage_flags r' = [True, False, False, False])"
proof -
  have "map (\<lambda>k. stage_flags all_done ! k \<and> int k < 1) [0..<4] = [True, False, False, False]"
    by (simp add: upt_4 stage_flags_def all_done_def)
  with uncheckMetadata_clears_from_stage [OF load_demo, of 1] load_demo
  show ?thesis by simp
qed

section \<open>Project\_manager: paths and file operations\<close>

lemma metadata_location_inj [simp]: "metadata_location l a = metadata_location l b \<longleftrightarrow> a = b"
  by (simp add: metadata_location_def)

lemma graph_location_inj [simp]: "graph_location l a = graph_location l b \<longleftrightarrow> a = b"
  by (simp add: graph_location_def)

lemma verilog_location_inj [simp]: "verilog_location l a = verilog_location l b \<longleftrightarrow> a = b"
  by (simp add: verilog_location_def)

lemma metadata_neq_graph [simp]:
  "metadata_location l a \<noteq> graph_location l b" "graph_location l b \<noteq> metadata_location l a"
proof -
  have "a @ ''_metadata.json'' \<noteq> b @ ''_graph_object_serialized.json''"
  proof
    assume "a @ ''_metadata.json'' = b @ ''_graph_object_serialized.json''"
    then have "rev (a @ ''_metadata.json'') = rev (b @ ''_graph_object_serialized.json'')" by simp
    then show False by simp
  qed
  then show "metadata_location l a \<noteq> graph_location l b" "graph_location l b \<noteq> metadata_location l a"
    by (auto simp: metadata_location_def graph_location_def)
qed

lemma metadata_neq_verilog [simp]:
  "metadata_location l a \<noteq> verilog_location l b" "verilog_location l b \<noteq> metadata_location l a"
proof -
  have "a @ ''_metadata.json'' \<noteq> b @ ''_NoC_description''"
  proof
    assume "a @ ''_metadata.json'' = b @ ''_NoC_description''"
    then have "rev (a @ ''_metadata.json'') = rev (b @ ''_NoC_description'')" by simp
    then show False by simp
  qed
  then show "metadata_location l a \<noteq> verilog_location l b" "verilog_location l b \<noteq> metadata_location l a"
    by (auto simp: metadata_location_def verilog_location_def)
qed

lemma graph_neq_verilog [simp]:
  "graph_location l a \<noteq> verilog_location l b" "verilog_location l b \<noteq> graph_location l a"
proof -
  have "a @ ''_graph_object_serialized.json'' \<noteq> b @ ''_NoC_description''"
  proof
    assume "a @ ''_graph_object_serialized.json'' = b @ ''_NoC_description''"
    then have "rev (a @ ''_graph_object_serialized.json'') = rev (b @ ''_NoC_description'')" by simp
    then show False by simp
  qed
  then show "graph_location l a \<noteq> verilog_location l b" "verilog_location l b \<noteq> graph_location l a"
    by (auto simp: graph_location_def verilog_location_def)
qed

lemma location_neq_metadata [simp]: "metadata_location l a \<noteq> l" "l \<noteq> metadata_location l a"
proof -
  have "length (metadata_location l a) \<noteq> length l" by (simp add: metadata_location_def)
  then show "metadata_location l a \<noteq> l" "l \<noteq> metadata_location l a" by auto
qed

lemma fs_remove_Some: "fs_remove s p = Some s' \<Longrightarrow> s' = s(p := None)"
  by (auto simp: fs_remove_def split: option.splits node.splits list.splits)

lemma location_neq_graph [simp]: "graph_location l a \<noteq> l" "l \<noteq> graph_location l a"
proof -
  have "length (graph_location l a) \<noteq> length l" by (simp add: graph_location_def)
  then show "graph_location l a \<noteq> l" "l \<noteq> graph_location l a" by auto
qed

lemma location_neq_verilog [simp]: "verilog_location l a \<noteq> l" "l \<noteq> verilog_location l a"
proof -
  have "length (verilog_location l a) \<noteq> length l" by (simp add: verilog_location_def)
  then show "verilog_location l a \<noteq> l" "l \<noteq> verilog_location l a" by auto
qed

lemma location_nonempty [simp]:
  "metadata_location l b \<noteq> []" "graph_location l b \<noteq> []" "verilog_location l b \<noteq> []"
  by (simp_all add: metadata_location_def graph_location_def verilog_location_def)

lemma parent_path_plain: "CHR ''/'' \<notin> set x \<Longrightarrow> parent_path (l @ ''/'' @ x) = l"
proof -
  assume "CHR ''/'' \<notin> set x"
  then have "dropWhile (\<lambda>c. c \<noteq> CHR ''/'') (rev x @ CHR ''/'' # rev l) =
             dropWhile (\<lambda>c. c \<noteq> CHR ''/'') (CHR ''/'' # rev l)"
    by (intro dropWhile_append2) auto
  then show ?thesis by (simp add: parent_path_def)
qed

lemma parent_metadata_location [simp]:
  "CHR ''/'' \<notin> set b \<Longrightarrow> parent_path (metadata_location l b) = l"
  unfolding metadata_location_def by (rule parent_path_plain) simp

lemma parent_graph_location [simp]:
  "CHR ''/'' \<notin> set b \<Longrightarrow> parent_path (graph_location l b) = l"
  unfolding graph_location_def by (rule parent_path_plain) simp

lemma parent_verilog_location [simp]:
  "CHR ''/'' \<notin> set b \<Longrightarrow> parent_path (verilog_location l b) = l"
  unfolding verilog_location_def by (rule parent_path_plain) simp

lemma is_directory_upd [simp]: "p \<noteq> q \<Longrightarrow> is_directory (s(p := x)) q = is_directory s q"
  by (simp add: is_directory_def)

lemma fs_rename_Some:
  "fs_rename s a b = Some s' \<Longrightarrow> s' = s \<or> (\<exists>n. s a = Some n \<and> s' = s(a := None, b \<mapsto> n))"
  unfolding fs_rename_def
  by (cases "s a"; cases "a = b"; cases "s b"; simp split: node.splits list.splits if_splits)

lemma fs_rename_fresh:
  "s a = Some n \<Longrightarrow> s b = None \<Longrightarrow> b \<noteq> [] \<Longrightarrow> is_directory s (parent_path b) \<Longrightarrow>
     fs_rename s a b = Some (s(a := None, b \<mapsto> n))"
  by (auto simp: fs_rename_def split: node.splits)

lemma load_record_write_file:
  "load_record (write_file s p j) p = Some x \<Longrightarrow> from_json j = Some x"
  by (auto simp: load_record_def write_file_def split: option.splits node.splits if_splits)


lemma manager_rename_fresh:
  assumes rec: "s (metadata_location l a) = Some (File_json j)"
    and graph: "s (graph_location l a) = Some g"
    and verilog: "s (verilog_location l a) = Some d"
    and fresh: "s (metadata_location l b) = None" "s (graph_location l b) = None"
               "s (verilog_location l b) = None"
    and ldir: "is_directory s l"
    and plain: "CHR ''/'' \<notin> set b"
  shows "manager_rename \<lparr>m_location = l, m_name = a, m_action = act, m_new_name = b\<rparr> r s =
           (Exit 0, [],
            s(metadata_location l b \<mapsto> File_json (to_json (r\<lparr>projectMetadata := (projectMetadata r)\<lparr>name := b\<rparr>\<rparr>)),
              metadata_location l a := None,
              graph_location l a := None, graph_location l b \<mapsto> g,
              verilog_location l a := None, verilog_location l b \<mapsto> d))"
proof -
  have ab: "a \<noteq> b" using rec fresh(1) by auto
  let ?r' = "r\<lparr>projectMetadata := (projectMetadata r)\<lparr>name := b\<rparr>\<rparr>"
  let ?s1 = "s(metadata_location l b \<mapsto> File_json (to_json ?r'))"
  let ?s2 = "?s1(metadata_location l a := None)"
  let ?s3 = "?s2(graph_location l a := None, graph_location l b \<mapsto> g)"
  let ?s5 = "?s3(verilog_location l a := None, verilog_location l b \<mapsto> d)"
  have w: "write_file s (metadata_location l b) (to_json ?r') = ?s1"
    by (simp add: write_file_def fresh(1) ldir plain)
  have rm: "fs_remove ?s1 (metadata_location l a) = Some ?s2"
    using ab rec by (simp add: fs_remove_def)
  have g1: "exists_path ?s2 (graph_location l a)"
    using graph by (simp add: exists_path_def)
  have g2: "fs_rename ?s2 (graph_location l a) (graph_location l b) = Some ?s3"
    by (rule fs_rename_fresh) (simp_all add: graph fresh ldir plain)
  have m1: "\<not> exists_path ?s3 (metadata_location l a)"
    by (simp add: exists_path_def)
  have v1: "exists_path ?s3 (verilog_location l a)"
    using verilog by (simp add: exists_path_def)
  have v2: "fs_rename ?s3 (verilog_location l a) (verilog_location l b) = Some ?s5"
    by (rule fs_rename_fresh) (simp_all add: verilog fresh ldir plain)
  show ?thesis
    unfolding manager_rename_def Let_def
    by (simp add: w rm g1 g2 m1 v1 v2)
qed

section \<open>Project\_manager: rename\<close>




section \<open>Project\_manager: missing project\<close>

text \<open>
  C8. When the project directory or the metadata file is missing, the erase action ends
  with status 0 and removes nothing, while the open and the rename action end with
  status 1 (and change nothing).
\<close>

theorem erase_tolerates_missing_project:
  assumes "manager_parse args initial_manager_vars = Inr v"
    and "\<not> exists_path s (m_location v) \<or> \<not> exists_path s (metadata_location (m_location v) (m_name v))"
  shows "(m_action v = ''e'' \<longrightarrow>
            fst (manager_main args s) = Exit 0 \<and> snd (snd (manager_main args s)) = s)
       \<and> (m_action v = ''o'' \<or> m_action v = ''r'' \<longrightarrow>
            fst (manager_main args s) = Exit 1 \<and> snd (snd (manager_main args s)) = s)"
  using assms
  by (auto simp: manager_main_def manager_erase_def manager_open_rename_def Let_def)

theorem erase_tolerates_missing_project_witness:
  "fst (manager_main [''-l'', ''nowhere'', ''-n'', ''p'', ''-e''] demo_fs) = Exit 0
   \<and> fst (manager_main [''-l'', ''d'', ''-n'', ''other'', ''-e''] demo_fs) = Exit 0
   \<and> snd (snd (manager_main [''-l'', ''d'', ''-n'', ''other'', ''-e''] demo_fs)) = demo_fs
   \<and> fst (manager_main [''-l'', ''nowhere'', ''-n'', ''p'', ''-o''] demo_fs) = Exit 1
   \<and> fst (manager_main [''-l'', ''d'', ''-n'', ''other''] demo_fs) = Exit 1
   \<and> fst (manager_main [''-l'', ''nowhere'', ''-n'', ''p'', ''-r'', ''q''] demo_fs) = Exit 1
   \<and> fst (manager_main [''-l'', ''d'', ''-n'', ''other'', ''-r'', ''q''] demo_fs) = Exit 1"
proof -
  have nowhere: "\<not> exists_path demo_fs ''nowhere''"
    by (simp add: exists_path_def demo_fs_def)
  have other: "\<not> exists_path demo_fs (metadata_location ''d'' ''other'')"
    by (simp add: exists_path_def demo_fs_def metadata_location_def)
  have e1: "manager_parse [''-l'', ''nowhere'', ''-n'', ''p'', ''-e''] initial_manager_vars =
      Inr \<lparr>m_location = ''nowhere'', m_name = ''p'', m_action = ''e'', m_new_name = []\<rparr>"
    and e2: "manager_parse [''-l'', ''d'', ''-n'', ''other'', ''-e''] initial_manager_vars =
      Inr \<lparr>m_location = ''d'', m_name = ''other'', m_action = ''e'', m_new_name = []\<rparr>"
    and o1: "manager_parse [''-l'', ''nowhere'', ''-n'', ''p'', ''-o''] initial_manager_vars =
      Inr \<lparr>m_location = ''nowhere'', m_name = ''p'', m_action = ''o'', m_new_name = []\<rparr>"
    and o2: "manager_parse [''-l'', ''d'', ''-n'', ''other''] initial_manager_vars =
      Inr \<lparr>m_location = ''d'', m_name = ''other'', m_action = ''o'', m_new_name = []\<rparr>"
    and r1: "manager_parse [''-l'', ''nowhere'', ''-n'', ''p'', ''-r'', ''q''] initial_manager_vars =
      Inr \<lparr>m_location = ''nowhere'', m_name = ''p'', m_action = ''r'', m_new_name = ''q''\<rparr>"
    and r2: "manager_parse [''-l'', ''d'', ''-n'', ''other'', ''-r'', ''q''] initial_manager_vars =
      Inr \<lparr>m_location = ''d'', m_name = ''other'', m_action = ''r'', m_new_name = ''q''\<rparr>"
    by (simp_all add: initial_manager_vars_def)
  show ?thesis
    using erase_tolerates_missing_project [OF e1, of demo_fs]
      erase_tolerates_missing_project [OF e2, of demo_fs]
      erase_tolerates_missing_project [OF o1, of demo_fs]
      erase_tolerates_missing_project [OF o2, of demo_fs]
      erase_tolerates_missing_project [OF r1, of demo_fs]
      erase_tolerates_missing_project [OF r2, of demo_fs]
      nowhere other
    by simp
qed

section \<open>Prefix closure of the written records\<close>

lemma fs_remove_load:
  "fs_remove s p = Some s' \<Longrightarrow> load_record s' q = Some x \<Longrightarrow> load_record s q = Some x"
  by (auto dest!: fs_remove_Some simp: load_record_def split: if_splits)

lemma fs_remove_absent: "fs_remove s p = Some s' \<Longrightarrow> s' p = None"
  by (auto dest!: fs_remove_Some)

lemma fs_rename_load:
  "fs_rename s a b = Some s' \<Longrightarrow> b \<noteq> q \<Longrightarrow> load_record s' q = Some x \<Longrightarrow> load_record s q = Some x"
  by (auto dest!: fs_rename_Some simp: load_record_def split: if_splits)

lemma fs_rename_absent:
  "fs_rename s a b = Some s' \<Longrightarrow> b \<noteq> q \<Longrightarrow> s q = None \<Longrightarrow> s' q = None"
  by (auto dest!: fs_rename_Some)

lemma manager_rename_new_record:
  assumes run: "manager_rename v r s = (oc, ev, s')"
    and found: "load_record s' (metadata_location (m_location v) (m_new_name v)) = Some r'"
  shows "r' = r\<lparr>projectMetadata := (projectMetadata r)\<lparr>name := m_new_name v\<rparr>\<rparr>"
proof -
  let ?new = "metadata_location (m_location v) (m_new_name v)"
  let ?old = "metadata_location (m_location v) (m_name v)"
  let ?w = "r\<lparr>projectMetadata := (projectMetadata r)\<lparr>name := m_new_name v\<rparr>\<rparr>"
  let ?s1 = "write_file s ?new (to_json ?w)"
  have s1: "load_record ?s1 ?new = Some x \<Longrightarrow> x = ?w" for x
    by (drule load_record_write_file) (simp add: from_json_to_json)
  show ?thesis
  proof (cases "fs_remove ?s1 ?old")
    case None
    with run have "s' = ?s1" by (simp add: manager_rename_def Let_def)
    with found s1 show ?thesis by simp
  next
    case (Some s2)
    note rm = Some
    have s2: "load_record s2 ?new = Some x \<Longrightarrow> x = ?w" for x
      using fs_remove_load [OF rm] s1 by blast
    have old2: "s2 ?old = None" by (rule fs_remove_absent [OF rm])
    let ?g = "if exists_path s2 (graph_location (m_location v) (m_name v))
              then fs_rename s2 (graph_location (m_location v) (m_name v))
                     (graph_location (m_location v) (m_new_name v))
              else Some s2"
    show ?thesis
    proof (cases ?g)
      case None
      with run rm have "s' = s2" by (simp add: manager_rename_def Let_def)
      with found s2 show ?thesis by simp
    next
      case (Some s3)
      note gr = Some
      have s3: "load_record s3 ?new = Some x \<Longrightarrow> x = ?w" for x
        using gr s2 fs_rename_load [of s2 _ "graph_location (m_location v) (m_new_name v)" s3 ?new x]
        by (auto split: if_splits)
      have old3: "s3 ?old = None"
        using gr old2 fs_rename_absent [of s2 _ "graph_location (m_location v) (m_new_name v)" s3 ?old]
        by (auto split: if_splits)
      then have noold: "\<not> exists_path s3 ?old" by (simp add: exists_path_def)
      let ?v = "if exists_path s3 (verilog_location (m_location v) (m_name v))
                then fs_rename s3 (verilog_location (m_location v) (m_name v))
                       (verilog_location (m_location v) (m_new_name v))
                else Some s3"
      show ?thesis
      proof (cases ?v)
        case None
        with run rm gr noold have "s' = s3" by (simp add: manager_rename_def Let_def)
        with found s3 show ?thesis by simp
      next
        case (Some s5)
        with run rm gr noold have "s' = s5" by (simp add: manager_rename_def Let_def)
        moreover have "load_record s5 ?new = Some x \<Longrightarrow> x = ?w" for x
          using Some s3 fs_rename_load [of s3 _ "verilog_location (m_location v) (m_new_name v)" s5 ?new x]
          by (auto split: if_splits)
        ultimately show ?thesis using found by simp
      qed
    qed
  qed
qed

lemma prefix_closed_rename:
  "prefix_closed (r\<lparr>projectMetadata := m\<rparr>) = prefix_closed r"
  by (simp add: prefix_closed_def stage_flags_def)

lemma stage_flags_rename:
  "stage_flags (r\<lparr>projectMetadata := m\<rparr>) = stage_flags r"
  by (simp add: stage_flags_def)

lemma prefix_closed_uncheck:
  "prefix_closed r \<Longrightarrow> prefix_closed (with_flags r (uncheck stage (flags_of r)))"
  by (auto simp: prefix_closed_iff with_flags_def uncheck_flags flags_of_def)

lemma manager_create_record:
  assumes "manager_create v s = (Exit 0, ev, s')"
    and "load_record s' (metadata_location (m_location v) (m_name v)) = Some r'"
  shows "r' = default_ProjectSettings\<lparr>projectMetadata := (projectMetadata default_ProjectSettings)\<lparr>name := m_name v\<rparr>\<rparr>"
proof -
  let ?w = "default_ProjectSettings\<lparr>projectMetadata := (projectMetadata default_ProjectSettings)\<lparr>name := m_name v\<rparr>\<rparr>"
  from assms(1) obtain s1 where
    "s' = write_file s1 (metadata_location (m_location v) (m_name v)) (to_json ?w)"
    by (auto simp: manager_create_def Let_def split: option.splits if_splits)
  with assms(2) have "from_json (to_json ?w) = Some r'"
    by (auto dest: load_record_write_file)
  then show ?thesis by (simp add: from_json_to_json)
qed

text \<open>
  C5. The three places that write a project record keep the flags prefix-closed. When the
  record read is prefix-closed: the record that \<^verbatim>\<open>uncheckMetadata\<close> writes back is
  prefix-closed, for every stage number; the record found under the new name after a
  rename that ended with status 0 has the flags of the old one and is prefix-closed; and
  the record found at the metadata path of the project after a create that ended with
  status 0 has all four flags false. (A create can end with status 0 without having
  written the file: the stream that writes it reports no failure.)
\<close>

theorem written_records_prefix_closed:
  assumes "prefix_closed r"
  shows "(load_record s p = Some r \<longrightarrow>
            (\<exists>t r'. uncheckMetadata p stage s = Some ([], t) \<and> load_record t p = Some r' \<and>
                prefix_closed r'))
       \<and> (manager_parse args initial_manager_vars = Inr v \<and> m_action v = ''r'' \<and>
          load_record s (metadata_location (m_location v) (m_name v)) = Some r \<and>
          manager_main args s = (Exit 0, ev, s') \<and>
          load_record s' (metadata_location (m_location v) (m_new_name v)) = Some r' \<longrightarrow>
            stage_flags r' = stage_flags r \<and> prefix_closed r')
       \<and> (manager_parse args initial_manager_vars = Inr v \<and> m_action v = ''c'' \<and>
          manager_main args s = (Exit 0, ev, s') \<and>
          load_record s' (metadata_location (m_location v) (m_name v)) = Some r' \<longrightarrow>
            stage_flags r' = [False, False, False, False] \<and> prefix_closed r')"
proof (intro conjI impI)
  assume "load_record s p = Some r"
  from uncheckMetadata_record [OF this, of stage] prefix_closed_uncheck [OF assms, of stage]
  show "\<exists>t r'. uncheckMetadata p stage s = Some ([], t) \<and> load_record t p = Some r' \<and> prefix_closed r'"
    by blast
next
  assume h: "manager_parse args initial_manager_vars = Inr v \<and> m_action v = ''r'' \<and>
          load_record s (metadata_location (m_location v) (m_name v)) = Some r \<and>
          manager_main args s = (Exit 0, ev, s') \<and>
          load_record s' (metadata_location (m_location v) (m_new_name v)) = Some r'"
  then have "manager_open_rename v s = (Exit 0, ev, s')"
    by (auto simp: manager_main_def)
  with h have "manager_rename v r s = (Exit 0, ev, s')"
    by (auto simp: manager_open_rename_def load_record_def
        split: if_splits option.splits node.splits)
  from manager_rename_new_record [OF this] h
  have r': "r' = r\<lparr>projectMetadata := (projectMetadata r)\<lparr>name := m_new_name v\<rparr>\<rparr>" by simp
  show "stage_flags r' = stage_flags r" by (simp add: r' stage_flags_rename)
  show "prefix_closed r'" by (simp add: r' prefix_closed_rename assms)
next
  assume h: "manager_parse args initial_manager_vars = Inr v \<and> m_action v = ''c'' \<and>
          manager_main args s = (Exit 0, ev, s') \<and>
          load_record s' (metadata_location (m_location v) (m_name v)) = Some r'"
  then have "manager_create v s = (Exit 0, ev, s')"
    by (auto simp: manager_main_def)
  from manager_create_record [OF this] h
  have r': "r' = default_ProjectSettings\<lparr>projectMetadata := (projectMetadata default_ProjectSettings)\<lparr>name := m_name v\<rparr>\<rparr>"
    by simp
  show "stage_flags r' = [False, False, False, False]"
    by (simp add: r' stage_flags_rename) (simp add: stage_flags_def default_ProjectSettings_def)
  show "prefix_closed r'"
    by (simp add: r' prefix_closed_rename) (simp add: prefix_closed_iff default_ProjectSettings_def)
qed

lemma manager_main_rename_demo:
  "manager_main [''-l'', ''d'', ''-n'', ''p'', ''-r'', ''q''] demo_fs =
     (Exit 0, [],
      demo_fs(metadata_location ''d'' ''q'' \<mapsto>
                File_json (to_json (all_done\<lparr>projectMetadata := (projectMetadata all_done)\<lparr>name := ''q''\<rparr>\<rparr>)),
              metadata_location ''d'' ''p'' := None,
              graph_location ''d'' ''p'' := None, graph_location ''d'' ''q'' \<mapsto> File_text ''graph'',
              verilog_location ''d'' ''p'' := None, verilog_location ''d'' ''q'' \<mapsto> Dir [''noc.v'']))"
proof -
  have "manager_rename \<lparr>m_location = ''d'', m_name = ''p'', m_action = ''r'', m_new_name = ''q''\<rparr> all_done demo_fs =
     (Exit 0, [],
      demo_fs(metadata_location ''d'' ''q'' \<mapsto>
                File_json (to_json (all_done\<lparr>projectMetadata := (projectMetadata all_done)\<lparr>name := ''q''\<rparr>\<rparr>)),
              metadata_location ''d'' ''p'' := None,
              graph_location ''d'' ''p'' := None, graph_location ''d'' ''q'' \<mapsto> File_text ''graph'',
              verilog_location ''d'' ''p'' := None, verilog_location ''d'' ''q'' \<mapsto> Dir [''noc.v'']))"
    by (rule manager_rename_fresh [where j = "to_json all_done"])
       (simp_all add: demo_fs_def metadata_location_def graph_location_def verilog_location_def
          is_directory_def)
  moreover have "demo_fs (metadata_location ''d'' ''p'') = Some (File_json (to_json all_done))"
    by (simp add: demo_fs_def metadata_location_def)
  moreover have "name (projectMetadata all_done) = ''p''" by (simp add: all_done_def)
  moreover have "exists_path demo_fs ''d''" by (simp add: demo_fs_def exists_path_def)
  ultimately show ?thesis
    by (simp add: manager_main_def initial_manager_vars_def manager_open_rename_def exists_path_def
        from_json_to_json)
qed

lemma manager_main_create_demo:
  "manager_main [''-l'', ''d'', ''-n'', ''fresh'', ''-c''] demo_fs =
     (Exit 0, [],
      demo_fs(metadata_location ''d'' ''fresh'' \<mapsto>
        File_json (to_json (default_ProjectSettings\<lparr>projectMetadata :=
                     (projectMetadata default_ProjectSettings)\<lparr>name := ''fresh''\<rparr>\<rparr>))))"
proof -
  have "parent_path (metadata_location ''d'' ''fresh'') = ''d''" by simp
  moreover have "is_directory demo_fs ''d''" by (simp add: is_directory_def demo_fs_def)
  moreover have "demo_fs (metadata_location ''d'' ''fresh'') = None" "demo_fs ''d'' \<noteq> None"
    by (simp_all add: demo_fs_def metadata_location_def)
  ultimately show ?thesis
    by (simp add: manager_main_def initial_manager_vars_def manager_create_def exists_path_def
        write_file_def)
qed

text \<open>Two creates that write nothing: when the location is a regular file the run ends with
  status 0 all the same, and with no location at all \<^verbatim>\<open>create_directories\<close> throws and the
  run ends with status 1.\<close>

lemma manager_main_create_in_file:
  "manager_main [''-l'', ''d/p_metadata.json'', ''-n'', ''x'', ''-c''] demo_fs = (Exit 0, [], demo_fs)"
proof -
  have "parent_path (metadata_location ''d/p_metadata.json'' ''x'') = ''d/p_metadata.json''" by simp
  moreover have "\<not> is_directory demo_fs ''d/p_metadata.json''"
    by (simp add: is_directory_def demo_fs_def)
  moreover have "demo_fs (metadata_location ''d/p_metadata.json'' ''x'') = None"
    "demo_fs ''d/p_metadata.json'' \<noteq> None"
    by (simp_all add: demo_fs_def metadata_location_def)
  ultimately show ?thesis
    by (simp add: manager_main_def initial_manager_vars_def manager_create_def exists_path_def
        write_file_def)
qed

lemma manager_main_create_no_location:
  "manager_main [''-n'', ''x'', ''-c''] demo_fs =
     (Exit 1, [Out ''Failed to create a project directory: ''], demo_fs)"
proof -
  have "demo_fs [] = None" by (simp add: demo_fs_def)
  then show ?thesis
    by (simp add: manager_main_def initial_manager_vars_def manager_create_def exists_path_def
        create_directories_def)
qed

lemma prefix_closed_all_done: "prefix_closed all_done"
  by (simp add: prefix_closed_iff all_done_def)

theorem written_records_prefix_closed_witness:
  "prefix_closed all_done
   \<and> load_record demo_fs demo_path = Some all_done
   \<and> (\<exists>t r'. uncheckMetadata demo_path 2 demo_fs = Some ([], t) \<and> load_record t demo_path = Some r' \<and>
          prefix_closed r')
   \<and> (\<exists>s' r'. manager_main [''-l'', ''d'', ''-n'', ''p'', ''-r'', ''q''] demo_fs = (Exit 0, [], s') \<and>
          load_record s' (metadata_location ''d'' ''q'') = Some r' \<and>
          stage_flags r' = [True, True, True, True] \<and> prefix_closed r')
   \<and> (\<exists>s' r'. manager_main [''-l'', ''d'', ''-n'', ''fresh'', ''-c''] demo_fs = (Exit 0, [], s') \<and>
          load_record s' (metadata_location ''d'' ''fresh'') = Some r' \<and>
          stage_flags r' = [False, False, False, False] \<and> prefix_closed r')"
proof -
  let ?renamed = "all_done\<lparr>projectMetadata := (projectMetadata all_done)\<lparr>name := ''q''\<rparr>\<rparr>"
  let ?s_r = "demo_fs(metadata_location ''d'' ''q'' \<mapsto> File_json (to_json ?renamed),
              metadata_location ''d'' ''p'' := None,
              graph_location ''d'' ''p'' := None, graph_location ''d'' ''q'' \<mapsto> File_text ''graph'',
              verilog_location ''d'' ''p'' := None, verilog_location ''d'' ''q'' \<mapsto> Dir [''noc.v''])"
  let ?fresh = "default_ProjectSettings\<lparr>projectMetadata :=
                     (projectMetadata default_ProjectSettings)\<lparr>name := ''fresh''\<rparr>\<rparr>"
  let ?s_c = "demo_fs(metadata_location ''d'' ''fresh'' \<mapsto> File_json (to_json ?fresh))"
  let ?v_r = "\<lparr>m_location = ''d'', m_name = ''p'', m_action = ''r'', m_new_name = ''q''\<rparr>"
  let ?v_c = "\<lparr>m_location = ''d'', m_name = ''fresh'', m_action = ''c'', m_new_name = []\<rparr>"
  note thm_r = written_records_prefix_closed [OF prefix_closed_all_done,
      of demo_fs demo_path 2 "[''-l'', ''d'', ''-n'', ''p'', ''-r'', ''q'']" ?v_r "[]" ?s_r ?renamed]
  note thm_c = written_records_prefix_closed [OF prefix_closed_all_done,
      of demo_fs demo_path 2 "[''-l'', ''d'', ''-n'', ''fresh'', ''-c'']" ?v_c "[]" ?s_c ?fresh]
  have a: "\<exists>t r'. uncheckMetadata demo_path 2 demo_fs = Some ([], t) \<and> load_record t demo_path = Some r' \<and>
          prefix_closed r'"
    using thm_r load_demo by blast
  have pr: "manager_parse [''-l'', ''d'', ''-n'', ''p'', ''-r'', ''q''] initial_manager_vars = Inr ?v_r"
    and pc: "manager_parse [''-l'', ''d'', ''-n'', ''fresh'', ''-c''] initial_manager_vars = Inr ?v_c"
    by (simp_all add: initial_manager_vars_def)
  have lr: "load_record demo_fs (metadata_location ''d'' ''p'') = Some all_done"
    using load_demo by (simp add: demo_path_def metadata_location_def)
  have lq: "load_record ?s_r (metadata_location ''d'' ''q'') = Some ?renamed"
    by (simp add: load_record_def from_json_to_json)
  have "stage_flags ?renamed = stage_flags all_done \<and> prefix_closed ?renamed"
    using thm_r pr lr lq manager_main_rename_demo by simp
  then have b: "\<exists>s' r'. manager_main [''-l'', ''d'', ''-n'', ''p'', ''-r'', ''q''] demo_fs = (Exit 0, [], s') \<and>
          load_record s' (metadata_location ''d'' ''q'') = Some r' \<and>
          stage_flags r' = [True, True, True, True] \<and> prefix_closed r'"
    using manager_main_rename_demo lq by (auto simp: stage_flags_def all_done_def)
  have lc: "load_record ?s_c (metadata_location ''d'' ''fresh'') = Some ?fresh"
    by (simp add: load_record_def from_json_to_json)
  have "stage_flags ?fresh = [False, False, False, False] \<and> prefix_closed ?fresh"
    using thm_c pc lc manager_main_create_demo by simp
  then have c: "\<exists>s' r'. manager_main [''-l'', ''d'', ''-n'', ''fresh'', ''-c''] demo_fs = (Exit 0, [], s') \<and>
          load_record s' (metadata_location ''d'' ''fresh'') = Some r' \<and>
          stage_flags r' = [False, False, False, False] \<and> prefix_closed r'"
    using manager_main_create_demo lc by blast
  from prefix_closed_all_done load_demo a b c show ?thesis by blast
qed

section \<open>Broker: what a run launches\<close>

lemma launched_append [simp]: "launched (xs @ ys) = launched xs @ launched ys"
  by (induction xs rule: launched.induct) auto

lemma uncheckMetadata_launched: "uncheckMetadata p k s = Some (e, s') \<Longrightarrow> launched e = []"
  by (auto simp: uncheckMetadata_def bind_eq_Some_conv split: if_splits option.splits node.splits)

lemma runProcess_launched: "runProcess sys c s = (res, e, s') \<Longrightarrow> launched e = [c]"
  by (auto simp: runProcess_def split: prod.splits)

lemma project_step_Inr:
  "project_step sys v s = Inr (v', ev, s') \<Longrightarrow>
     v' = after_project v \<and> launched ev = (if launch_manager v then [manager_command v] else [])"
  by (auto simp: project_step_def after_project_def split: if_splits prod.splits
      dest: runProcess_launched)

lemma project_step_Inl:
  "project_step sys v s = Inl (oc, ev, s') \<Longrightarrow>
     oc \<noteq> Exit 0 \<and> launch_manager v \<and> launched ev = [manager_command v]"
  by (auto simp: project_step_def split: if_splits prod.splits dest: runProcess_launched)

lemma graph_step_Inr:
  "graph_step sys v s = Inr (ev, s') \<Longrightarrow>
     launched ev = (if launch_graph v then [graph_command v] else [])"
  by (auto simp: graph_step_def split: if_splits prod.splits option.splits)
     (auto dest!: runProcess_launched uncheckMetadata_launched)

lemma graph_step_Inl:
  "graph_step sys v s = Inl (oc, ev, s') \<Longrightarrow>
     oc \<noteq> Exit 0 \<and> launch_graph v \<and> (launched ev = [] \<or> launched ev = [graph_command v])"
  by (auto simp: graph_step_def split: if_splits prod.splits option.splits)
     (auto dest!: runProcess_launched uncheckMetadata_launched)

lemma quartus_step_Inr:
  "quartus_step sys v s = Inr (ev, s') \<Longrightarrow>
     launched ev = (if launch_quartus v then [quartus_command v] else [])"
  by (auto simp: quartus_step_def split: if_splits prod.splits option.splits)
     (auto dest!: runProcess_launched uncheckMetadata_launched)

lemma quartus_step_Inl:
  "quartus_step sys v s = Inl (oc, ev, s') \<Longrightarrow>
     oc \<noteq> Exit 0 \<and> launch_quartus v \<and> (launched ev = [] \<or> launched ev = [quartus_command v])"
  by (auto simp: quartus_step_def split: if_splits prod.splits option.splits)
     (auto dest!: runProcess_launched uncheckMetadata_launched)

lemma db_step_Inr:
  "db_step sys v s = Inr (ev, s') \<Longrightarrow>
     launched ev = (if launch_db v then [db_command v] else [])"
  by (auto simp: db_step_def split: if_splits prod.splits option.splits)
     (auto dest!: runProcess_launched uncheckMetadata_launched)

lemma db_step_Inl:
  "db_step sys v s = Inl (oc, ev, s') \<Longrightarrow>
     oc \<noteq> Exit 0 \<and> launch_db v \<and> (launched ev = [] \<or> launched ev = [db_command v])"
  by (auto simp: db_step_def split: if_splits prod.splits option.splits)
     (auto dest!: runProcess_launched uncheckMetadata_launched)

lemma after_project_flags [simp]:
  "launch_graph (after_project v) = launch_graph v"
  "launch_quartus (after_project v) = launch_quartus v"
  "launch_db (after_project v) = launch_db v"
  by (simp_all add: after_project_def)

lemma run_stages_launched:
  assumes "run_stages sys v s = (oc, ev, s')"
  shows "prefix (launched ev) (plan v) \<and> (oc = Exit 0 \<longrightarrow> launched ev = plan v)"
proof (cases "project_step sys v s")
  case (Inl a)
  then obtain oc0 ev0 s0 where a: "project_step sys v s = Inl (oc0, ev0, s0)" by (cases a) auto
  with assms have "oc = oc0" "ev = ev0" by (simp_all add: run_stages_def)
  with project_step_Inl [OF a] show ?thesis by (simp add: plan_def)
next
  case (Inr b)
  then obtain v0 ev0 s0 where b: "project_step sys v s = Inr (v0, ev0, s0)" by (cases b) auto
  from project_step_Inr [OF b] have v0: "v0 = after_project v"
    and l0: "launched ev0 = (if launch_manager v then [manager_command v] else [])" by simp_all
  show ?thesis
  proof (cases "graph_step sys v0 s0")
    case (Inl a)
    then obtain oc1 ev1 s1 where a: "graph_step sys v0 s0 = Inl (oc1, ev1, s1)" by (cases a) auto
    with assms b have "oc = oc1" "ev = ev0 @ ev1" by (simp_all add: run_stages_def)
    with graph_step_Inl [OF a] l0 v0 show ?thesis by (auto simp: plan_def)
  next
    case (Inr c)
    then obtain ev1 s1 where c: "graph_step sys v0 s0 = Inr (ev1, s1)" by (cases c) auto
    note l1 = graph_step_Inr [OF c]
    show ?thesis
    proof (cases "quartus_step sys v0 s1")
      case (Inl a)
      then obtain oc2 ev2 s2 where a: "quartus_step sys v0 s1 = Inl (oc2, ev2, s2)" by (cases a) auto
      with assms b c have "oc = oc2" "ev = ev0 @ ev1 @ ev2" by (simp_all add: run_stages_def)
      with quartus_step_Inl [OF a] l0 l1 v0 show ?thesis by (auto simp: plan_def)
    next
      case (Inr d)
      then obtain ev2 s2 where d: "quartus_step sys v0 s1 = Inr (ev2, s2)" by (cases d) auto
      note l2 = quartus_step_Inr [OF d]
      show ?thesis
      proof (cases "db_step sys v0 s2")
        case (Inl a)
        then obtain oc3 ev3 s3 where a: "db_step sys v0 s2 = Inl (oc3, ev3, s3)" by (cases a) auto
        with assms b c d have "oc = oc3" "ev = ev0 @ ev1 @ ev2 @ ev3" by (simp_all add: run_stages_def)
        with db_step_Inl [OF a] l0 l1 l2 v0 show ?thesis by (auto simp: plan_def)
      next
        case (Inr e)
        then obtain ev3 s3 where e: "db_step sys v0 s2 = Inr (ev3, s3)" by (cases e) auto
        with assms b c d have "ev = ev0 @ ev1 @ ev2 @ ev3" by (simp_all add: run_stages_def)
        with db_step_Inr [OF e] l0 l1 l2 v0 show ?thesis by (auto simp: plan_def)
      qed
    qed
  qed
qed

lemma tool_rank_commands [simp]:
  "tool_rank (manager_command v) = 0"
  "tool_rank (graph_command v) = 1"
  "tool_rank (quartus_command v) = 2"
  "tool_rank (db_command v) = 3"
  by (simp_all add: tool_rank_def manager_command_def graph_command_def quartus_command_def
      db_command_def manager_exec_def veriloger_exec_def quartus_exec_def db_exec_def)

lemma plan_sorted: "sorted_wrt (<) (map tool_rank (plan v))"
  by (simp add: plan_def)

lemma prefix_sorted:
  assumes "prefix xs ys" and "sorted_wrt (<) (map tool_rank ys)"
  shows "sorted_wrt (<) (map tool_rank xs)"
proof -
  from assms(1) obtain zs where "ys = xs @ zs" by (auto simp: prefix_def)
  with assms(2) show ?thesis by (simp add: sorted_wrt_append)
qed


section \<open>The command-line loops\<close>

lemma not_action_flag:
  assumes "x \<notin> action_flags"
  shows "x \<noteq> ''-o''" "x \<noteq> ''--open''" "x \<noteq> ''-c''" "x \<noteq> ''--create''"
    "x \<noteq> ''-e''" "x \<noteq> ''--erase''" "x \<noteq> ''-r''" "x \<noteq> ''--rename''"
  using assms by (simp_all add: action_flags_def)

lemma manager_parse_step:
  assumes nf: "option \<notin> action_flags"
    and ih: "\<And>x rest2 v0 v1. rest = x # rest2 \<Longrightarrow> manager_parse rest2 v0 = Inr v1 \<Longrightarrow> m_action v1 = m_action v0"
    and run: "manager_parse (option # rest) v = Inr v'"
  shows "m_action v' = m_action v"
proof -
  note ne = not_action_flag [OF nf]
  consider (l) "option = ''-l'' \<or> option = ''--location''"
    | (n) "\<not> (option = ''-l'' \<or> option = ''--location'')" "option = ''-n'' \<or> option = ''--name''"
    | (other) "\<not> (option = ''-l'' \<or> option = ''--location'')" "\<not> (option = ''-n'' \<or> option = ''--name'')"
    by blast
  then show ?thesis
  proof cases
    case l
    show ?thesis
    proof (cases rest)
      case Nil
      with run l show ?thesis by simp
    next
      case (Cons x rest2)
      with run l have "manager_parse rest2 (v\<lparr>m_location := x\<rparr>) = Inr v'" by simp
      from ih [OF Cons this] show ?thesis by simp
    qed
  next
    case n
    show ?thesis
    proof (cases rest)
      case Nil
      with run n show ?thesis by simp
    next
      case (Cons x rest2)
      with run n have "manager_parse rest2 (v\<lparr>m_name := x\<rparr>) = Inr v'" by simp
      from ih [OF Cons this] show ?thesis by simp
    qed
  next
    case other
    with run ne show ?thesis by simp
  qed
qed

lemma manager_parse_action:
  "set args \<inter> action_flags = {} \<Longrightarrow> manager_parse args v = Inr v' \<Longrightarrow> m_action v' = m_action v"
proof (induction args arbitrary: v v' rule: length_induct)
  case (1 xs)
  show ?case
  proof (cases xs)
    case Nil
    with "1.prems" show ?thesis by simp
  next
    case (Cons option rest)
    from "1.prems"(1) Cons have nf: "option \<notin> action_flags" and rest: "set rest \<inter> action_flags = {}"
      by auto
    have ih: "m_action v1 = m_action v0"
      if "rest = x # rest2" "manager_parse rest2 v0 = Inr v1" for x rest2 v0 v1
    proof -
      from that(1) Cons have "length rest2 < length xs" by simp
      moreover from that(1) rest have "set rest2 \<inter> action_flags = {}" by auto
      ultimately show ?thesis using "1.IH" that(2) by blast
    qed
    from "1.prems"(2) Cons have "manager_parse (option # rest) v = Inr v'" by simp
    from manager_parse_step [OF nf ih this] show ?thesis .
  qed
qed


lemma parse_args_step:
  assumes "arg \<notin> action_flags"
    and a: "\<And>v0 v1. parse_args s rest v0 = Inr v1 \<Longrightarrow> project_action v1 = project_action v0"
    and p: "\<And>v0 v1. parse_project s rest v0 = Inr v1 \<Longrightarrow> project_action v1 = project_action v0"
    and "parse_args s (arg # rest) v = Inr v'"
  shows "project_action v' = project_action v"
  using assms(1,4) by (simp add: action_flags_def split: if_splits) (auto dest!: a p)

lemma parse_project_step:
  assumes nf: "next \<notin> action_flags"
    and a: "\<And>v0 v1. parse_args s (next # rest) v0 = Inr v1 \<Longrightarrow> project_action v1 = project_action v0"
    and p: "\<And>x rest2 v0 v1. rest = x # rest2 \<Longrightarrow> parse_project s rest2 v0 = Inr v1 \<Longrightarrow>
              project_action v1 = project_action v0"
    and run: "parse_project s (next # rest) v = Inr v'"
  shows "project_action v' = project_action v"
proof -
  note ne = not_action_flag [OF nf]
  consider (n) "next = ''-n'' \<or> next = ''--name''"
    | (l) "\<not> (next = ''-n'' \<or> next = ''--name'')" "next = ''-l'' \<or> next = ''--location''"
    | (other) "\<not> (next = ''-n'' \<or> next = ''--name'')" "\<not> (next = ''-l'' \<or> next = ''--location'')"
    by blast
  then show ?thesis
  proof cases
    case n
    show ?thesis
    proof (cases rest)
      case Nil
      with run n show ?thesis by (simp del: parse_args.simps)
    next
      case (Cons x rest2)
      with run n have "parse_project s rest2 (v\<lparr>project_name := x\<rparr>) = Inr v'"
        by (simp del: parse_args.simps)
      from p [OF Cons this] show ?thesis by simp
    qed
  next
    case l
    show ?thesis
    proof (cases rest)
      case Nil
      with run l show ?thesis by (simp del: parse_args.simps)
    next
      case (Cons x rest2)
      with run l have "parse_project s rest2 (v\<lparr>project_location := x\<rparr>) = Inr v'"
        by (simp del: parse_args.simps)
      from p [OF Cons this] show ?thesis by simp
    qed
  next
    case other
    with run ne have "parse_args s (next # rest) v = Inr v'"
      by (simp del: parse_args.simps)
    from a [OF this] show ?thesis .
  qed
qed

lemma parse_action:
  "set args \<inter> action_flags = {} \<Longrightarrow>
     (\<forall>v v'. parse_args s args v = Inr v' \<longrightarrow> project_action v' = project_action v) \<and>
     (\<forall>v v'. parse_project s args v = Inr v' \<longrightarrow> project_action v' = project_action v)"
proof (induction args rule: length_induct)
  case (1 xs)
  show ?case
  proof (cases xs)
    case Nil
    then show ?thesis by simp
  next
    case (Cons arg rest)
    from "1.prems" Cons have nf: "arg \<notin> action_flags" and rest: "set rest \<inter> action_flags = {}"
      by auto
    from Cons have "length rest < length xs" by simp
    with "1.IH" rest
    have both: "(\<forall>v v'. parse_args s rest v = Inr v' \<longrightarrow> project_action v' = project_action v) \<and>
      (\<forall>v v'. parse_project s rest v = Inr v' \<longrightarrow> project_action v' = project_action v)"
      by blast
    have a: "project_action v1 = project_action v0" if "parse_args s rest v0 = Inr v1" for v0 v1
      using both that by blast
    have p: "project_action v1 = project_action v0" if "parse_project s rest v0 = Inr v1" for v0 v1
      using both that by blast
    have p2: "project_action v1 = project_action v0"
      if "rest = x # rest2" "parse_project s rest2 v0 = Inr v1" for x rest2 v0 v1
    proof -
      from that(1) Cons have "length rest2 < length xs" by simp
      moreover from that(1) rest have "set rest2 \<inter> action_flags = {}" by auto
      ultimately show ?thesis using "1.IH" that(2) by blast
    qed
    have first: "project_action v1 = project_action v0" if "parse_args s (arg # rest) v0 = Inr v1" for v0 v1
      by (rule parse_args_step [OF nf a p that])
    have second: "project_action v1 = project_action v0" if "parse_project s (arg # rest) v0 = Inr v1" for v0 v1
      by (rule parse_project_step [OF nf first p2 that])
    from first second Cons show ?thesis by blast
  qed
qed

lemma parse_args_step_Inl:
  assumes a: "\<And>v0. parse_args s rest v0 = Inl (oc, ev) \<Longrightarrow> launched ev = []"
    and p: "\<And>v0. parse_project s rest v0 = Inl (oc, ev) \<Longrightarrow> launched ev = []"
    and "parse_args s (arg # rest) v = Inl (oc, ev)"
  shows "launched ev = []"
  using assms(3) by (simp split: if_splits) (erule a | erule p | clarsimp)+

lemma parse_project_step_Inl:
  assumes a: "\<And>v0. parse_args s (next # rest) v0 = Inl (oc, ev) \<Longrightarrow> launched ev = []"
    and p: "\<And>v0. parse_project s rest v0 = Inl (oc, ev) \<Longrightarrow> launched ev = []"
    and p2: "\<And>x rest2 v0. rest = x # rest2 \<Longrightarrow> parse_project s rest2 v0 = Inl (oc, ev)
               \<Longrightarrow> launched ev = []"
    and run: "parse_project s (next # rest) v = Inl (oc, ev)"
  shows "launched ev = []"
proof (cases "next = ''-n'' \<or> next = ''--name''")
  case n: True
  show ?thesis
  proof (cases rest)
    case Nil
    with run n show ?thesis by (simp del: parse_args.simps)
  next
    case (Cons x rest2)
    with run n have "parse_project s rest2 (v\<lparr>project_name := x\<rparr>) = Inl (oc, ev)"
      by (simp del: parse_args.simps)
    from p2 [OF Cons this] show ?thesis .
  qed
next
  case n: False
  show ?thesis
  proof (cases "next = ''-l'' \<or> next = ''--location''")
    case l: True
    show ?thesis
    proof (cases rest)
      case Nil
      with run n l show ?thesis by (simp del: parse_args.simps)
    next
      case (Cons x rest2)
      with run n l have "parse_project s rest2 (v\<lparr>project_location := x\<rparr>) = Inl (oc, ev)"
        by (simp del: parse_args.simps)
      from p2 [OF Cons this] show ?thesis .
    qed
  next
    case l: False
    show ?thesis
    proof (cases "next = ''-o'' \<or> next = ''--open''")
      case True
      with run n l have "parse_project s rest (v\<lparr>project_action := ''o''\<rparr>) = Inl (oc, ev)"
        by (simp del: parse_args.simps)
      from p [OF this] show ?thesis .
    next
      case o: False
      show ?thesis
      proof (cases "next = ''-c'' \<or> next = ''--create''")
        case True
        with run n l o have "parse_project s rest (v\<lparr>project_action := ''c''\<rparr>) = Inl (oc, ev)"
          by (simp del: parse_args.simps)
        from p [OF this] show ?thesis .
      next
        case c: False
        show ?thesis
        proof (cases "next = ''-e'' \<or> next = ''--erase''")
          case True
          with run n l o c have "parse_project s rest (v\<lparr>project_action := ''e''\<rparr>) = Inl (oc, ev)"
            by (simp del: parse_args.simps)
          from p [OF this] show ?thesis .
        next
          case e: False
          show ?thesis
          proof (cases "next = ''-r'' \<or> next = ''--rename''")
            case r: True
            show ?thesis
            proof (cases rest)
              case Nil
              with run n l o c e r show ?thesis by (simp del: parse_args.simps)
            next
              case (Cons x rest2)
              with run n l o c e r
              have "parse_project s rest2 (v\<lparr>project_action := ''r'', project_new_name := x\<rparr>) = Inl (oc, ev)"
                by (simp del: parse_args.simps)
              from p2 [OF Cons this] show ?thesis .
            qed
          next
            case r: False
            with run n l o c e have "parse_args s (next # rest) v = Inl (oc, ev)"
              by (simp del: parse_args.simps)
            from a [OF this] show ?thesis .
          qed
        qed
      qed
    qed
  qed
qed

lemma parse_launched:
  "(\<forall>v. parse_args s args v = Inl (oc, ev) \<longrightarrow> launched ev = []) \<and>
   (\<forall>v. parse_project s args v = Inl (oc, ev) \<longrightarrow> launched ev = [])"
proof (induction args rule: length_induct)
  case (1 xs)
  show ?case
  proof (cases xs)
    case Nil
    then show ?thesis by simp
  next
    case (Cons arg rest)
    then have "length rest < length xs" by simp
    with "1.IH"
    have both: "(\<forall>v. parse_args s rest v = Inl (oc, ev) \<longrightarrow> launched ev = []) \<and>
      (\<forall>v. parse_project s rest v = Inl (oc, ev) \<longrightarrow> launched ev = [])"
      by blast
    have a: "launched ev = []" if "parse_args s rest v0 = Inl (oc, ev)" for v0
      using both that by blast
    have p: "launched ev = []" if "parse_project s rest v0 = Inl (oc, ev)" for v0
      using both that by blast
    have p2: "launched ev = []" if "rest = x # rest2" "parse_project s rest2 v0 = Inl (oc, ev)" for x rest2 v0
    proof -
      from that(1) Cons have "length rest2 < length xs" by simp
      then show ?thesis using "1.IH" that(2) by blast
    qed
    have first: "launched ev = []" if "parse_args s (arg # rest) v0 = Inl (oc, ev)" for v0
      by (rule parse_args_step_Inl [OF a p that])
    have second: "launched ev = []" if "parse_project s (arg # rest) v0 = Inl (oc, ev)" for v0
      by (rule parse_project_step_Inl [OF first p p2 that])
    from first second Cons show ?thesis by blast
  qed
qed

section \<open>Broker: order of the stages\<close>

lemma broker_main_parsed:
  "args \<noteq> [] \<Longrightarrow> parse_args s args initial_vars = Inr v \<Longrightarrow>
     broker_main sys args s = run_stages sys v s"
  by (simp add: broker_main_def)

lemma broker_main_launched_sorted:
  "sorted_wrt (<) (map tool_rank (launched (fst (snd (broker_main sys args s)))))"
proof (cases "args = []")
  case True
  then show ?thesis by (simp add: broker_main_def)
next
  case False
  show ?thesis
  proof (cases "parse_args s args initial_vars")
    case (Inl e)
    obtain oc ev where e: "e = (oc, ev)" by (cases e)
    with Inl parse_launched [of s args oc ev] have "launched ev = []" by blast
    with Inl e False show ?thesis by (simp add: broker_main_def)
  next
    case (Inr v)
    obtain oc ev s' where r: "run_stages sys v s = (oc, ev, s')" by (cases "run_stages sys v s")
    from run_stages_launched [OF r] have "prefix (launched ev) (plan v)" by simp
    from prefix_sorted [OF this plan_sorted] r broker_main_parsed [OF False Inr, of sys]
    show ?thesis by simp
  qed
qed

text \<open>
  C9. In every run of the Broker, whatever the command line and whatever the tools do, the
  commands launched are in the order Project\_manager, graph, quartus, database, each at
  most once: the ranks of the launched commands increase strictly. When the command line
  parses, the launched commands are an initial part of the requested tools' commands in
  that fixed order, and all of them when the run ends with status 0; the order in which the
  caller wrote the stage options plays no part.
\<close>

theorem stages_launch_in_pipeline_order:
  "sorted_wrt (<) (map tool_rank (launched (fst (snd (broker_main sys args s)))))
   \<and> (\<forall>v. args \<noteq> [] \<and> parse_args s args initial_vars = Inr v \<longrightarrow>
         prefix (launched (fst (snd (broker_main sys args s)))) (plan v) \<and>
         (fst (broker_main sys args s) = Exit 0 \<longrightarrow>
            launched (fst (snd (broker_main sys args s))) = plan v))"
proof (intro conjI allI impI)
  show "sorted_wrt (<) (map tool_rank (launched (fst (snd (broker_main sys args s)))))"
    by (rule broker_main_launched_sorted)
next
  fix v
  assume h: "args \<noteq> [] \<and> parse_args s args initial_vars = Inr v"
  then have m: "broker_main sys args s = run_stages sys v s"
    by (simp add: broker_main_parsed)
  obtain oc ev s' where r: "run_stages sys v s = (oc, ev, s')" by (cases "run_stages sys v s")
  note l = run_stages_launched [OF r]
  from l show "prefix (launched (fst (snd (broker_main sys args s)))) (plan v)"
    by (simp add: m r)
  assume "fst (broker_main sys args s) = Exit 0"
  with l show "launched (fst (snd (broker_main sys args s))) = plan v"
    by (simp add: m r)
qed

theorem stages_launch_in_pipeline_order_witness:
  "[''--project'', ''-n'', ''p'', ''-l'', ''d'', ''--database'', ''--quartus'', ''--graph''] \<noteq> []
   \<and> parse_args demo_fs
        [''--project'', ''-n'', ''p'', ''-l'', ''d'', ''--database'', ''--quartus'', ''--graph'']
        initial_vars =
       Inr \<lparr>launch_manager = True, launch_graph = True, launch_quartus = True,
            launch_db = True, project_name = ''p'', project_location = ''d'',
            project_new_name = [], project_action = ''o'', graph_args = [],
            quartus_args = [], db_args = [], key_arg = ''--graph''\<rparr>
   \<and> fst (broker_main idle_system
        [''--project'', ''-n'', ''p'', ''-l'', ''d'', ''--database'', ''--quartus'', ''--graph'']
        demo_fs) = Exit 0
   \<and> launched (fst (snd (broker_main idle_system
        [''--project'', ''-n'', ''p'', ''-l'', ''d'', ''--database'', ''--quartus'', ''--graph'']
        demo_fs))) =
       [''../../../../../Project_manager/Project_manager -l d -n p -o'',
        ''../../../../../Graph_verilog_generator/Graph_verilog_generator -l d -n p'',
        ''../../../../../Quartus_compiler/Quartus_compiler -l d -n p'',
        ''../../../../../Database_writer/Database_writer -l d -n p'']"
proof -
  let ?args = "[''--project'', ''-n'', ''p'', ''-l'', ''d'', ''--database'', ''--quartus'', ''--graph'']"
  let ?v = "\<lparr>launch_manager = True, launch_graph = True, launch_quartus = True,
            launch_db = True, project_name = ''p'', project_location = ''d'',
            project_new_name = [], project_action = ''o'', graph_args = [],
            quartus_args = [], db_args = [], key_arg = ''--graph''\<rparr>"
  have p: "parse_args demo_fs ?args initial_vars = Inr ?v"
    by (simp add: initial_vars_def)
  have ok: "fst (broker_main idle_system ?args demo_fs) = Exit 0"
    by code_simp
  have pl: "plan ?v =
       [''../../../../../Project_manager/Project_manager -l d -n p -o'',
        ''../../../../../Graph_verilog_generator/Graph_verilog_generator -l d -n p'',
        ''../../../../../Quartus_compiler/Quartus_compiler -l d -n p'',
        ''../../../../../Database_writer/Database_writer -l d -n p'']"
    by (simp add: plan_def after_project_def manager_command_def graph_command_def
        quartus_command_def db_command_def manager_exec_def veriloger_exec_def quartus_exec_def
        db_exec_def)
  from stages_launch_in_pipeline_order [of idle_system ?args demo_fs] p ok
  have "launched (fst (snd (broker_main idle_system ?args demo_fs))) = plan ?v"
    by blast
  with p ok pl show ?thesis by simp
qed

section \<open>The default action\<close>

lemma run_stages_first:
  assumes "launch_manager v"
  shows "\<exists>rest. launched (fst (snd (run_stages sys v s))) = manager_command v # rest"
proof (cases "project_step sys v s")
  case (Inl a)
  then obtain oc0 ev0 s0 where a: "project_step sys v s = Inl (oc0, ev0, s0)" by (cases a) auto
  from project_step_Inl [OF a] a show ?thesis by (simp add: run_stages_def)
next
  case (Inr b)
  then obtain v0 ev0 s0 where b: "project_step sys v s = Inr (v0, ev0, s0)" by (cases b) auto
  from project_step_Inr [OF b] assms have "launched ev0 = [manager_command v]" by simp
  with b show ?thesis
    by (simp add: run_stages_def split: sum.splits prod.splits)
qed

text \<open>
  C10. Both programs initialise the action to \<open>"o"\<close>. On a command line that holds none
  of the action options, Project\_manager's action after parsing is \<open>"o"\<close> and its run is
  the open branch, which leaves the file system alone; the Broker's action after parsing
  is \<open>"o"\<close>, and with \<^verbatim>\<open>--project\<close> the first command it launches is Project\_manager
  with \<^verbatim>\<open>-o\<close>.
\<close>

theorem action_defaults_to_open:
  assumes "set args \<inter> action_flags = {}"
  shows "m_action initial_manager_vars = ''o''
       \<and> (\<forall>v. manager_parse args initial_manager_vars = Inr v \<longrightarrow>
             m_action v = ''o'' \<and> manager_main args s = manager_open_rename v s \<and>
             snd (snd (manager_main args s)) = s)
       \<and> project_action initial_vars = ''o''
       \<and> (\<forall>v. parse_args s args initial_vars = Inr v \<longrightarrow>
             project_action v = ''o'' \<and>
             (launch_manager v \<longrightarrow>
                (\<exists>rest. launched (fst (snd (broker_main sys args s))) =
                   (manager_exec @ '' -l '' @ project_location v @ '' -n '' @ project_name v @ '' -o'')
                   # rest)))"
proof (intro conjI allI impI)
  show "m_action initial_manager_vars = ''o''" by (simp add: initial_manager_vars_def)
  show "project_action initial_vars = ''o''" by (simp add: initial_vars_def)
next
  fix v
  assume p: "manager_parse args initial_manager_vars = Inr v"
  from manager_parse_action [OF assms p]
  show o: "m_action v = ''o''" by (simp add: initial_manager_vars_def)
  with p show m: "manager_main args s = manager_open_rename v s"
    by (simp add: manager_main_def)
  from o show "snd (snd (manager_main args s)) = s"
    by (simp add: m manager_open_rename_def split: option.splits node.splits)
next
  fix v
  assume p: "parse_args s args initial_vars = Inr v"
  from parse_action [OF assms, of s] p
  show o: "project_action v = ''o''" by (simp add: initial_vars_def)
  assume lm: "launch_manager v"
  have "args \<noteq> []"
  proof
    assume "args = []"
    with p have "v = initial_vars" by simp
    with lm show False by (simp add: initial_vars_def)
  qed
  from broker_main_parsed [OF this p, of sys] run_stages_first [OF lm, of sys s] o
  show "\<exists>rest. launched (fst (snd (broker_main sys args s))) =
          (manager_exec @ '' -l '' @ project_location v @ '' -n '' @ project_name v @ '' -o'') # rest"
    by (simp add: manager_command_def)
qed

theorem action_defaults_to_open_witness:
  "set [''-l'', ''d'', ''-n'', ''p''] \<inter> action_flags = {}
   \<and> manager_parse [''-l'', ''d'', ''-n'', ''p''] initial_manager_vars =
       Inr \<lparr>m_location = ''d'', m_name = ''p'', m_action = ''o'', m_new_name = []\<rparr>
   \<and> manager_main [''-l'', ''d'', ''-n'', ''p''] demo_fs =
       manager_open_rename \<lparr>m_location = ''d'', m_name = ''p'', m_action = ''o'', m_new_name = []\<rparr> demo_fs
   \<and> snd (snd (manager_main [''-l'', ''d'', ''-n'', ''p''] demo_fs)) = demo_fs
   \<and> set [''--project'', ''-l'', ''d'', ''-n'', ''p''] \<inter> action_flags = {}
   \<and> parse_args demo_fs [''--project'', ''-l'', ''d'', ''-n'', ''p''] initial_vars =
       Inr \<lparr>launch_manager = True, launch_graph = False, launch_quartus = False,
            launch_db = False, project_name = ''p'', project_location = ''d'',
            project_new_name = [], project_action = ''o'', graph_args = [],
            quartus_args = [], db_args = [], key_arg = []\<rparr>
   \<and> (\<exists>rest. launched (fst (snd (broker_main idle_system
           [''--project'', ''-l'', ''d'', ''-n'', ''p''] demo_fs))) =
         ''../../../../../Project_manager/Project_manager -l d -n p -o'' # rest)"
proof -
  let ?am = "[''-l'', ''d'', ''-n'', ''p'']"
  let ?ab = "[''--project'', ''-l'', ''d'', ''-n'', ''p'']"
  let ?vm = "\<lparr>m_location = ''d'', m_name = ''p'', m_action = ''o'', m_new_name = []\<rparr>"
  let ?vb = "\<lparr>launch_manager = True, launch_graph = False, launch_quartus = False,
            launch_db = False, project_name = ''p'', project_location = ''d'',
            project_new_name = [], project_action = ''o'', graph_args = [],
            quartus_args = [], db_args = [], key_arg = []\<rparr>"
  have fm: "set ?am \<inter> action_flags = {}" and fb: "set ?ab \<inter> action_flags = {}"
    by (simp_all add: action_flags_def)
  have pm: "manager_parse ?am initial_manager_vars = Inr ?vm"
    by (simp add: initial_manager_vars_def)
  have pb: "parse_args demo_fs ?ab initial_vars = Inr ?vb"
    by (simp add: initial_vars_def)
  from action_defaults_to_open [OF fm, of demo_fs] pm
  have m: "manager_main ?am demo_fs = manager_open_rename ?vm demo_fs"
    "snd (snd (manager_main ?am demo_fs)) = demo_fs"
    by blast+
  from action_defaults_to_open [OF fb, of demo_fs idle_system] pb
  have "\<exists>rest. launched (fst (snd (broker_main idle_system ?ab demo_fs))) =
          (manager_exec @ '' -l '' @ project_location ?vb @ '' -n '' @ project_name ?vb @ '' -o'') # rest"
    by simp
  then have b: "\<exists>rest. launched (fst (snd (broker_main idle_system ?ab demo_fs))) =
         ''../../../../../Project_manager/Project_manager -l d -n p -o'' # rest"
    by (simp add: manager_exec_def)
  from fm pm m fb pb b show ?thesis by blast
qed

section \<open>Broker: a stage whose tool succeeds\<close>

lemma demo_vars_path: "metadata_path demo_vars = demo_path"
  by (simp add: metadata_path_def demo_vars_def demo_path_def)

lemma flags_of_with_flags [simp]: "flags_of (with_flags r f) = f"
  by (simp add: flags_of_def with_flags_def)

lemma load_record_mark_in_file:
  "load_record (mark_in_file st p s) p =
     map_option (\<lambda>r. with_flags r (markComplete st (flags_of r))) (load_record s p)"
  by (cases "load_record s p") (simp_all add: mark_in_file_def load_record_def from_json_to_json)

lemma stage_step_success:
  assumes "requested st v"
    and "uncheckMetadata (metadata_path v) (stage_number st) s = Some (e1, s1)"
    and "sys (stage_command st v) s1 = (ret, s2)"
    and "WEXITSTATUS ret = 0"
  shows "stage_step st sys v s =
           Inr (e1 @ [Out (''Executing: '' @ stage_command st v), Launch (stage_command st v),
                      Out (success_message st)], s2)"
  using assms
  by (cases st) (simp_all add: graph_step_def quartus_step_def db_step_def runProcess_def)




section \<open>Broker: a stage without a metadata file\<close>

text \<open>
  C2, as the code has it. When the block of a requested stage is reached and no metadata
  file exists at the derived path, \<^verbatim>\<open>uncheckMetadata\<close> reports it and changes nothing; the
  stage's tool is launched all the same, on the unchanged file system; the block ends the
  run with status 1 exactly when the tool returns a non-zero status, and otherwise reports
  success and hands over to the next block. So a run that requests this stage alone, and
  no project step, launches the tool and ends with status 1 when the tool returns a
  non-zero status and with status 0 otherwise.
\<close>

theorem missing_metadata_stage_still_runs:
  assumes "requested st v"
    and "\<not> exists_path s (metadata_path v)"
    and "sys (stage_command st v) s = (ret, s2)"
  shows "uncheckMetadata (metadata_path v) (stage_number st) s =
           Some ([Err (''Metadata file not found: '' @ metadata_path v)], s)
       \<and> stage_step st sys v s =
           (if WEXITSTATUS ret \<noteq> 0
            then Inl (Exit 1,
                   [Err (''Metadata file not found: '' @ metadata_path v),
                    Out (''Executing: '' @ stage_command st v), Launch (stage_command st v),
                    Err (failure_message st)], s2)
            else Inr ([Err (''Metadata file not found: '' @ metadata_path v),
                       Out (''Executing: '' @ stage_command st v), Launch (stage_command st v),
                       Out (success_message st)], s2))
       \<and> (args \<noteq> [] \<and> parse_args s args initial_vars = Inr v \<and> \<not> launch_manager v \<and>
          filter (\<lambda>st'. requested st' v) [Graph, Quartus, Database] = [st] \<longrightarrow>
            broker_main sys args s =
              (if WEXITSTATUS ret \<noteq> 0
               then (Exit 1,
                     [Err (''Metadata file not found: '' @ metadata_path v),
                      Out (''Executing: '' @ stage_command st v), Launch (stage_command st v),
                      Err (failure_message st)], s2)
               else (Exit 0,
                     [Err (''Metadata file not found: '' @ metadata_path v),
                      Out (''Executing: '' @ stage_command st v), Launch (stage_command st v),
                      Out (success_message st)], s2)))"
proof (intro conjI impI)
  show "uncheckMetadata (metadata_path v) (stage_number st) s =
           Some ([Err (''Metadata file not found: '' @ metadata_path v)], s)"
    using assms(2) by (simp add: uncheckMetadata_def)
  show step: "stage_step st sys v s =
           (if WEXITSTATUS ret \<noteq> 0
            then Inl (Exit 1,
                   [Err (''Metadata file not found: '' @ metadata_path v),
                    Out (''Executing: '' @ stage_command st v), Launch (stage_command st v),
                    Err (failure_message st)], s2)
            else Inr ([Err (''Metadata file not found: '' @ metadata_path v),
                       Out (''Executing: '' @ stage_command st v), Launch (stage_command st v),
                       Out (success_message st)], s2))"
    using assms
    by (cases st)
       (simp_all add: uncheckMetadata_def graph_step_def quartus_step_def db_step_def runProcess_def)
  assume h: "args \<noteq> [] \<and> parse_args s args initial_vars = Inr v \<and> \<not> launch_manager v \<and>
          filter (\<lambda>st'. requested st' v) [Graph, Quartus, Database] = [st]"
  then have main: "broker_main sys args s = run_stages sys v s"
    by (simp add: broker_main_parsed)
  from h have proj: "project_step sys v s = Inr (v, [], s)" by (simp add: project_step_def)
  show "broker_main sys args s =
              (if WEXITSTATUS ret \<noteq> 0
               then (Exit 1,
                     [Err (''Metadata file not found: '' @ metadata_path v),
                      Out (''Executing: '' @ stage_command st v), Launch (stage_command st v),
                      Err (failure_message st)], s2)
               else (Exit 0,
                     [Err (''Metadata file not found: '' @ metadata_path v),
                      Out (''Executing: '' @ stage_command st v), Launch (stage_command st v),
                      Out (success_message st)], s2))"
  proof (cases st)
    case Graph
    with h have only: "\<not> launch_quartus v" "\<not> launch_db v" by (auto split: if_splits)
    then have rest: "quartus_step sys v s2 = Inr ([], s2)" "db_step sys v s2 = Inr ([], s2)"
      by (simp_all add: quartus_step_def db_step_def)
    from step Graph show ?thesis by (simp add: main run_stages_def proj rest)
  next
    case Quartus
    with h have only: "\<not> launch_graph v" "\<not> launch_db v" by (auto split: if_splits)
    then have rest: "graph_step sys v s = Inr ([], s)" "db_step sys v s2 = Inr ([], s2)"
      by (simp_all add: graph_step_def db_step_def)
    from step Quartus show ?thesis by (simp add: main run_stages_def proj rest)
  next
    case Database
    with h have only: "\<not> launch_graph v" "\<not> launch_quartus v" by (auto split: if_splits)
    then have rest: "graph_step sys v s = Inr ([], s)" "quartus_step sys v s = Inr ([], s)"
      by (simp_all add: graph_step_def quartus_step_def)
    from step Database show ?thesis by (simp add: main run_stages_def proj rest)
  qed
qed

theorem missing_metadata_stage_still_runs_witness:
  "requested Graph (initial_vars\<lparr>launch_graph := True, key_arg := ''--graph''\<rparr>)
   \<and> \<not> exists_path demo_fs (metadata_path (initial_vars\<lparr>launch_graph := True, key_arg := ''--graph''\<rparr>))
   \<and> idle_system (stage_command Graph (initial_vars\<lparr>launch_graph := True, key_arg := ''--graph''\<rparr>))
        demo_fs = (0, demo_fs)
   \<and> [''--graph''] \<noteq> []
   \<and> parse_args demo_fs [''--graph''] initial_vars =
       Inr (initial_vars\<lparr>launch_graph := True, key_arg := ''--graph''\<rparr>)
   \<and> \<not> launch_manager (initial_vars\<lparr>launch_graph := True, key_arg := ''--graph''\<rparr>)
   \<and> filter (\<lambda>st'. requested st' (initial_vars\<lparr>launch_graph := True, key_arg := ''--graph''\<rparr>))
        [Graph, Quartus, Database] = [Graph]
   \<and> uncheckMetadata (metadata_path (initial_vars\<lparr>launch_graph := True, key_arg := ''--graph''\<rparr>))
        (stage_number Graph) demo_fs =
       Some ([Err ''Metadata file not found: /_metadata.json''], demo_fs)
   \<and> stage_step Graph idle_system (initial_vars\<lparr>launch_graph := True, key_arg := ''--graph''\<rparr>) demo_fs =
       Inr ([Err ''Metadata file not found: /_metadata.json'',
             Out ''Executing: ../../../../../Graph_verilog_generator/Graph_verilog_generator -l  -n '',
             Launch ''../../../../../Graph_verilog_generator/Graph_verilog_generator -l  -n '',
             Out ''Graph_verilog_generator success.\<newline>''], demo_fs)
   \<and> broker_main idle_system [''--graph''] demo_fs =
       (Exit 0,
        [Err ''Metadata file not found: /_metadata.json'',
         Out ''Executing: ../../../../../Graph_verilog_generator/Graph_verilog_generator -l  -n '',
         Launch ''../../../../../Graph_verilog_generator/Graph_verilog_generator -l  -n '',
         Out ''Graph_verilog_generator success.\<newline>''], demo_fs)
   \<and> requested Quartus (initial_vars\<lparr>launch_quartus := True, key_arg := ''--quartus''\<rparr>)
   \<and> failing_quartus_system
        (stage_command Quartus (initial_vars\<lparr>launch_quartus := True, key_arg := ''--quartus''\<rparr>)) demo_fs =
       (256, demo_fs)
   \<and> parse_args demo_fs [''--quartus''] initial_vars =
       Inr (initial_vars\<lparr>launch_quartus := True, key_arg := ''--quartus''\<rparr>)
   \<and> filter (\<lambda>st'. requested st' (initial_vars\<lparr>launch_quartus := True, key_arg := ''--quartus''\<rparr>))
        [Graph, Quartus, Database] = [Quartus]
   \<and> stage_step Quartus failing_quartus_system
        (initial_vars\<lparr>launch_quartus := True, key_arg := ''--quartus''\<rparr>) demo_fs =
       Inl (Exit 1,
            [Err ''Metadata file not found: /_metadata.json'',
             Out ''Executing: ../../../../../Quartus_compiler/Quartus_compiler -l  -n '',
             Launch ''../../../../../Quartus_compiler/Quartus_compiler -l  -n '',
             Err ''Quartus_compiler failure.\<newline>''], demo_fs)
   \<and> broker_main failing_quartus_system [''--quartus''] demo_fs =
       (Exit 1,
        [Err ''Metadata file not found: /_metadata.json'',
         Out ''Executing: ../../../../../Quartus_compiler/Quartus_compiler -l  -n '',
         Launch ''../../../../../Quartus_compiler/Quartus_compiler -l  -n '',
         Err ''Quartus_compiler failure.\<newline>''], demo_fs)"
proof -
  let ?vg = "initial_vars\<lparr>launch_graph := True, key_arg := ''--graph''\<rparr>"
  let ?vq = "initial_vars\<lparr>launch_quartus := True, key_arg := ''--quartus''\<rparr>"
  have rg: "requested Graph ?vg" and rq: "requested Quartus ?vq" by simp_all
  have ag: "[''--graph''] \<noteq> []" and aq: "[''--quartus''] \<noteq> []" by simp_all
  have parse_g: "parse_args demo_fs [''--graph''] initial_vars = Inr ?vg"
    and parse_q: "parse_args demo_fs [''--quartus''] initial_vars = Inr ?vq"
    by simp_all
  have mg: "\<not> launch_manager ?vg" and mq: "\<not> launch_manager ?vq"
    by (simp_all add: initial_vars_def)
  have fg: "filter (\<lambda>st'. requested st' ?vg) [Graph, Quartus, Database] = [Graph]"
    and fq: "filter (\<lambda>st'. requested st' ?vq) [Graph, Quartus, Database] = [Quartus]"
    by (simp_all add: initial_vars_def)
  have pg: "metadata_path ?vg = ''/_metadata.json''" and pq: "metadata_path ?vq = ''/_metadata.json''"
    by (simp_all add: metadata_path_def initial_vars_def)
  have ne: "\<not> exists_path demo_fs ''/_metadata.json''"
    by (simp add: exists_path_def demo_fs_def)
  have sg: "idle_system (stage_command Graph ?vg) demo_fs = (0, demo_fs)"
    by (simp add: idle_system_def)
  have sq: "failing_quartus_system (stage_command Quartus ?vq) demo_fs = (256, demo_fs)"
    by (simp add: failing_quartus_system_def quartus_command_def)
  have cg: "stage_command Graph ?vg = ''../../../../../Graph_verilog_generator/Graph_verilog_generator -l  -n ''"
    by (simp add: graph_command_def veriloger_exec_def initial_vars_def)
  have cq: "stage_command Quartus ?vq = ''../../../../../Quartus_compiler/Quartus_compiler -l  -n ''"
    by (simp add: quartus_command_def quartus_exec_def initial_vars_def)
  from ne have neg: "\<not> exists_path demo_fs (metadata_path ?vg)"
    and neq: "\<not> exists_path demo_fs (metadata_path ?vq)" by (simp_all add: pg pq)
  note tg = missing_metadata_stage_still_runs [where sys = idle_system and args = "[''--graph'']",
      OF rg neg sg]
  note tq = missing_metadata_stage_still_runs [where sys = failing_quartus_system
      and args = "[''--quartus'']", OF rq neq sq]
  from tg have g1: "uncheckMetadata (metadata_path ?vg) (stage_number Graph) demo_fs =
       Some ([Err ''Metadata file not found: /_metadata.json''], demo_fs)"
    by (simp add: pg)
  from tg have g2: "stage_step Graph idle_system ?vg demo_fs =
       Inr ([Err ''Metadata file not found: /_metadata.json'',
             Out ''Executing: ../../../../../Graph_verilog_generator/Graph_verilog_generator -l  -n '',
             Launch ''../../../../../Graph_verilog_generator/Graph_verilog_generator -l  -n '',
             Out ''Graph_verilog_generator success.\<newline>''], demo_fs)"
    by (simp add: pg cg WEXITSTATUS_def del: stage_step.simps stage_command.simps)
  from tg ag parse_g mg fg have g3: "broker_main idle_system [''--graph''] demo_fs =
       (Exit 0,
        [Err ''Metadata file not found: /_metadata.json'',
         Out ''Executing: ../../../../../Graph_verilog_generator/Graph_verilog_generator -l  -n '',
         Launch ''../../../../../Graph_verilog_generator/Graph_verilog_generator -l  -n '',
         Out ''Graph_verilog_generator success.\<newline>''], demo_fs)"
    by (simp add: pg cg WEXITSTATUS_def
        del: stage_step.simps stage_command.simps parse_args.simps filter.simps)
  from tq have q2: "stage_step Quartus failing_quartus_system ?vq demo_fs =
       Inl (Exit 1,
            [Err ''Metadata file not found: /_metadata.json'',
             Out ''Executing: ../../../../../Quartus_compiler/Quartus_compiler -l  -n '',
             Launch ''../../../../../Quartus_compiler/Quartus_compiler -l  -n '',
             Err ''Quartus_compiler failure.\<newline>''], demo_fs)"
    by (simp add: pq cq WEXITSTATUS_def del: stage_step.simps stage_command.simps)
  from tq aq parse_q mq fq have q3: "broker_main failing_quartus_system [''--quartus''] demo_fs =
       (Exit 1,
        [Err ''Metadata file not found: /_metadata.json'',
         Out ''Executing: ../../../../../Quartus_compiler/Quartus_compiler -l  -n '',
         Launch ''../../../../../Quartus_compiler/Quartus_compiler -l  -n '',
         Err ''Quartus_compiler failure.\<newline>''], demo_fs)"
    by (simp add: pq cq WEXITSTATUS_def
        del: stage_step.simps stage_command.simps parse_args.simps filter.simps)
  from rg neg sg ag parse_g mg fg g1 g2 g3 rq sq parse_q fq q2 q3 show ?thesis by blast
qed

text \<open>
  The claim as stated fails: \<^verbatim>\<open>Broker --graph\<close> with no metadata file launches the generator
  and, the generator exiting with status 0, ends with status 0.
\<close>

theorem missing_metadata_counterexample:
  "\<not> exists_path demo_fs ''/_metadata.json''
   \<and> broker_main idle_system [''--graph''] demo_fs =
       (Exit 0,
        [Err ''Metadata file not found: /_metadata.json'',
         Out ''Executing: ../../../../../Graph_verilog_generator/Graph_verilog_generator -l  -n '',
         Launch ''../../../../../Graph_verilog_generator/Graph_verilog_generator -l  -n '',
         Out ''Graph_verilog_generator success.\<newline>''],
        demo_fs)"
  by (simp add: broker_main_def initial_vars_def run_stages_def project_step_def graph_step_def
      quartus_step_def db_step_def uncheckMetadata_def metadata_path_def exists_path_def
      demo_fs_def runProcess_def idle_system_def graph_command_def veriloger_exec_def
      WEXITSTATUS_def)

section \<open>Broker: the same stage twice\<close>

lemma stage_flags_flags_of:
  "stage_flags r = [ps_graphSerialized (flags_of r), ps_verilogGenerated (flags_of r),
                    ps_quartusCompiled (flags_of r), ps_writtenToDB (flags_of r)]"
  by (simp add: stage_flags_def flags_of_def)

lemma markComplete_uncheck_idem:
  "markComplete st (uncheck (stage_number st) (markComplete st (uncheck (stage_number st) f))) =
   markComplete st (uncheck (stage_number st) f)"
  by (cases st) (simp_all add: uncheck_def)

lemma contract_run:
  assumes contract: "\<forall>t. WEXITSTATUS (fst (sys c t)) = 0 \<and>
              map_option flags_of (load_record (snd (sys c t)) p) =
              map_option (\<lambda>x. markComplete st (flags_of x)) (load_record t p)"
    and rec: "load_record s p = Some r"
  shows "\<exists>s1 r1. uncheckMetadata p k s = Some ([], s1) \<and>
           WEXITSTATUS (fst (sys c s1)) = 0 \<and>
           load_record (snd (sys c s1)) p = Some r1 \<and>
           flags_of r1 = markComplete st (uncheck k (flags_of r))"
proof -
  from uncheckMetadata_record [OF rec, of k] obtain s1 where
    s1: "uncheckMetadata p k s = Some ([], s1)"
      "load_record s1 p = Some (with_flags r (uncheck k (flags_of r)))" by blast
  from contract have w: "WEXITSTATUS (fst (sys c s1)) = 0"
    and f: "map_option flags_of (load_record (snd (sys c s1)) p) =
            map_option (\<lambda>x. markComplete st (flags_of x)) (load_record s1 p)" by blast+
  from f s1(2) obtain r1 where "load_record (snd (sys c s1)) p = Some r1"
    "flags_of r1 = markComplete st (uncheck k (flags_of r))"
    by (cases "load_record (snd (sys c s1)) p") auto
  with s1(1) w show ?thesis by blast
qed

text \<open>
  C7, as the code has it. The Broker only clears flags, so what two runs of a stage leave
  depends on the tool. When the stage's tool exits with status 0 wherever it is run, sets
  the flags its stage owns and leaves the other flags as it finds them, running the stage
  block twice in a row leaves the same stage flags as running it once: the flags cleared
  from the stage on, then the stage's own flags set.
\<close>

theorem repeated_stage_same_flags:
  assumes req: "requested st v"
    and rec: "load_record s (metadata_path v) = Some r"
    and contract: "\<forall>t. WEXITSTATUS (fst (sys (stage_command st v) t)) = 0 \<and>
              map_option flags_of (load_record (snd (sys (stage_command st v) t)) (metadata_path v)) =
              map_option (\<lambda>x. markComplete st (flags_of x)) (load_record t (metadata_path v))"
  shows "\<exists>ev1 s1 ev2 s2 r1 r2.
           stage_step st sys v s = Inr (ev1, s1) \<and> stage_step st sys v s1 = Inr (ev2, s2) \<and>
           load_record s1 (metadata_path v) = Some r1 \<and> load_record s2 (metadata_path v) = Some r2 \<and>
           flags_of r1 = markComplete st (uncheck (stage_number st) (flags_of r)) \<and>
           stage_flags r2 = stage_flags r1"
proof -
  let ?p = "metadata_path v" and ?c = "stage_command st v" and ?k = "stage_number st"
  from contract_run [where sys = sys and c = ?c and st = st, OF contract rec, of ?k] obtain t1 r1 where
    t1: "uncheckMetadata ?p ?k s = Some ([], t1)" "WEXITSTATUS (fst (sys ?c t1)) = 0"
      "load_record (snd (sys ?c t1)) ?p = Some r1"
      "flags_of r1 = markComplete st (uncheck ?k (flags_of r))" by blast
  let ?s1 = "snd (sys ?c t1)"
  have run1: "sys ?c t1 = (fst (sys ?c t1), ?s1)" by simp
  note step1 = stage_step_success [where sys = sys, OF req t1(1) run1 t1(2)]
  from contract_run [where sys = sys and c = ?c and st = st, OF contract t1(3), of ?k] obtain t2 r2 where
    t2: "uncheckMetadata ?p ?k ?s1 = Some ([], t2)" "WEXITSTATUS (fst (sys ?c t2)) = 0"
      "load_record (snd (sys ?c t2)) ?p = Some r2"
      "flags_of r2 = markComplete st (uncheck ?k (flags_of r1))" by blast
  let ?s2 = "snd (sys ?c t2)"
  have run2: "sys ?c t2 = (fst (sys ?c t2), ?s2)" by simp
  note step2 = stage_step_success [where sys = sys, OF req t2(1) run2 t2(2)]
  from t1(4) t2(4) have "flags_of r2 = flags_of r1"
    by (simp add: markComplete_uncheck_idem)
  then have "stage_flags r2 = stage_flags r1" by (simp add: stage_flags_flags_of)
  with step1 step2 t1(3,4) t2(3) show ?thesis by blast
qed

lemma marking_system_contract:
  "\<forall>t. WEXITSTATUS (fst (marking_system (stage_command Quartus demo_vars) t)) = 0 \<and>
       map_option flags_of
         (load_record (snd (marking_system (stage_command Quartus demo_vars) t)) (metadata_path demo_vars)) =
       map_option (\<lambda>x. markComplete Quartus (flags_of x)) (load_record t (metadata_path demo_vars))"
  by (simp add: marking_system_def quartus_command_def quartus_exec_def veriloger_exec_def
      WEXITSTATUS_def demo_vars_path load_record_mark_in_file option.map_comp comp_def)

theorem repeated_stage_same_flags_witness:
  "requested Quartus demo_vars
   \<and> load_record demo_fs (metadata_path demo_vars) = Some all_done
   \<and> (\<forall>t. WEXITSTATUS (fst (marking_system (stage_command Quartus demo_vars) t)) = 0 \<and>
       map_option flags_of
         (load_record (snd (marking_system (stage_command Quartus demo_vars) t)) (metadata_path demo_vars)) =
       map_option (\<lambda>x. markComplete Quartus (flags_of x)) (load_record t (metadata_path demo_vars)))
   \<and> (\<exists>ev1 s1 ev2 s2 r1 r2.
         stage_step Quartus marking_system demo_vars demo_fs = Inr (ev1, s1) \<and>
         stage_step Quartus marking_system demo_vars s1 = Inr (ev2, s2) \<and>
         load_record s1 demo_path = Some r1 \<and> load_record s2 demo_path = Some r2 \<and>
         stage_flags r1 = [True, True, True, False] \<and>
         stage_flags r2 = [True, True, True, False])"
proof -
  have req: "requested Quartus demo_vars" by (simp add: demo_vars_def)
  have rec: "load_record demo_fs (metadata_path demo_vars) = Some all_done"
    by (simp add: demo_vars_path load_demo)
  from repeated_stage_same_flags [where sys = marking_system, OF req rec marking_system_contract]
  obtain ev1 s1 ev2 s2 r1 r2 where
    r: "stage_step Quartus marking_system demo_vars demo_fs = Inr (ev1, s1)"
      "stage_step Quartus marking_system demo_vars s1 = Inr (ev2, s2)"
      "load_record s1 (metadata_path demo_vars) = Some r1"
      "load_record s2 (metadata_path demo_vars) = Some r2"
      "flags_of r1 = markComplete (Quartus) (uncheck (stage_number Quartus) (flags_of all_done))"
      "stage_flags r2 = stage_flags r1"
    by blast
  from r(5) have f1: "stage_flags r1 = [True, True, True, False]"
    by (simp add: stage_flags_flags_of uncheck_flags) (simp add: flags_of_def all_done_def)
  with r(6) have f2: "stage_flags r2 = [True, True, True, False]" by simp
  from r(1-4) f1 f2 have "\<exists>ev1 s1 ev2 s2 r1 r2.
         stage_step Quartus marking_system demo_vars demo_fs = Inr (ev1, s1) \<and>
         stage_step Quartus marking_system demo_vars s1 = Inr (ev2, s2) \<and>
         load_record s1 demo_path = Some r1 \<and> load_record s2 demo_path = Some r2 \<and>
         stage_flags r1 = [True, True, True, False] \<and>
         stage_flags r2 = [True, True, True, False]"
    unfolding demo_vars_path by blast
  with req rec marking_system_contract show ?thesis by blast
qed

text \<open>
  The claim as stated fails: a Quartus compiler that exits with status 0 on both runs, but
  on the second finds its build in place and writes nothing, leaves \<open>quartusCompiled\<close>
  true after one run of the quartus stage and false after two.
\<close>

theorem repeated_stage_counterexample:
  "fst (broker_main caching_system [''--project'', ''-n'', ''p'', ''-l'', ''d'', ''--quartus''] demo_fs) = Exit 0
   \<and> fst (broker_main caching_system [''--project'', ''-n'', ''p'', ''-l'', ''d'', ''--quartus'']
        (snd (snd (broker_main caching_system
           [''--project'', ''-n'', ''p'', ''-l'', ''d'', ''--quartus''] demo_fs)))) = Exit 0
   \<and> map_option stage_flags
        (load_record (snd (snd (broker_main caching_system
           [''--project'', ''-n'', ''p'', ''-l'', ''d'', ''--quartus''] demo_fs))) demo_path) =
       Some [True, True, True, False]
   \<and> map_option stage_flags
        (load_record (snd (snd (broker_main caching_system
           [''--project'', ''-n'', ''p'', ''-l'', ''d'', ''--quartus'']
           (snd (snd (broker_main caching_system
              [''--project'', ''-n'', ''p'', ''-l'', ''d'', ''--quartus''] demo_fs)))))) demo_path) =
       Some [True, True, False, False]"
  by code_simp

section \<open>Broker: a failing quartus stage\<close>

lemma after_project_path:
  "project_step sys v0 s0 = Inr (v, ev0, s) \<Longrightarrow>
     launch_graph v = launch_graph v0 \<and> launch_quartus v = launch_quartus v0 \<and>
     launch_db v = launch_db v0"
  by (auto dest!: project_step_Inr)

text \<open>
  C4, as the code has it. In a run that requests graph, quartus and database, where the
  project step (if any) and the graph stage succeeded, a Quartus compiler that returns a
  non-zero exit status ends the run with status 1; the commands launched are those of the
  project step, the generator and the compiler, so the database writer is never launched.
  The stored record has \<open>graphSerialized\<close> and \<open>verilogGenerated\<close> true, \<open>quartusCompiled\<close>
  and \<open>writtenToDB\<close> false, when it is the record at the path that the Broker derives from
  its own location and name, the graph tool left both its flags set there, and the failing
  compiler left that record as it found it.
\<close>

theorem quartus_failure_halts_pipeline:
  assumes ne: "args \<noteq> []" and parse: "parse_args s0 args initial_vars = Inr v0"
    and req: "launch_graph v0" "launch_quartus v0" "launch_db v0"
    and proj: "project_step sys v0 s0 = Inr (v, ev0, s)"
    and graph: "graph_step sys v s = Inr (ev1, s1)"
    and unc: "uncheckMetadata (metadata_path v) 2 s1 = Some (e2, t)"
    and q: "sys (quartus_command v) t = (ret, s2)" "WEXITSTATUS ret \<noteq> 0"
  shows "broker_main sys args s0 =
           (Exit 1,
            ev0 @ ev1 @ e2 @ [Out (''Executing: '' @ quartus_command v), Launch (quartus_command v),
                              Err ''Quartus_compiler failure.\<newline>''],
            s2)
       \<and> launched (fst (snd (broker_main sys args s0))) =
           launched ev0 @ [graph_command v, quartus_command v]
       \<and> filter (\<lambda>c. tool_rank c = 3) (launched (fst (snd (broker_main sys args s0)))) = []
       \<and> (load_record s1 (metadata_path v) = Some r1 \<and>
          graphSerialized (graphVerilogMetadata r1) \<and> verilogGenerated (graphVerilogMetadata r1) \<and>
          load_record s2 (metadata_path v) = load_record t (metadata_path v) \<longrightarrow>
            (\<exists>r2. load_record s2 (metadata_path v) = Some r2 \<and>
                   stage_flags r2 = [True, True, False, False]))"
proof -
  from after_project_path [OF proj] req
  have req': "launch_graph v" "launch_quartus v" "launch_db v" by simp_all
  have qs: "quartus_step sys v s1 =
      Inl (Exit 1, e2 @ [Out (''Executing: '' @ quartus_command v), Launch (quartus_command v),
                         Err ''Quartus_compiler failure.\<newline>''], s2)"
    using req'(2) unc q by (simp add: quartus_step_def runProcess_def)
  have run: "broker_main sys args s0 =
           (Exit 1,
            ev0 @ ev1 @ e2 @ [Out (''Executing: '' @ quartus_command v), Launch (quartus_command v),
                              Err ''Quartus_compiler failure.\<newline>''],
            s2)"
    by (simp add: broker_main_parsed [OF ne parse] run_stages_def proj graph qs)
  from graph_step_Inr [OF graph] req'(1) have l1: "launched ev1 = [graph_command v]" by simp
  from uncheckMetadata_launched [OF unc] have l2: "launched e2 = []" .
  have l: "launched (fst (snd (broker_main sys args s0))) =
           launched ev0 @ [graph_command v, quartus_command v]"
    by (simp add: run l1 l2)
  from project_step_Inr [OF proj]
  have l0: "filter (\<lambda>c. tool_rank c = 3) (launched ev0) = []"
    by (simp split: if_splits)
  have nodb: "filter (\<lambda>c. tool_rank c = 3) (launched (fst (snd (broker_main sys args s0)))) = []"
    by (simp add: l l0)
  have flags: "\<exists>r2. load_record s2 (metadata_path v) = Some r2 \<and>
                 stage_flags r2 = [True, True, False, False]"
    if gflags: "load_record s1 (metadata_path v) = Some r1"
      "graphSerialized (graphVerilogMetadata r1)" "verilogGenerated (graphVerilogMetadata r1)"
    and keep: "load_record s2 (metadata_path v) = load_record t (metadata_path v)"
  proof -
    from uncheckMetadata_record [OF gflags(1), of 2] unc
    have "load_record t (metadata_path v) = Some (with_flags r1 (uncheck 2 (flags_of r1)))"
      by auto
    moreover have "stage_flags (with_flags r1 (uncheck 2 (flags_of r1))) = [True, True, False, False]"
      using gflags(2,3)
      by (simp add: stage_flags_with_flags uncheck_flags) (simp add: flags_of_def)
    ultimately show ?thesis by (simp add: keep)
  qed
  from run l nodb flags show ?thesis by blast
qed

theorem quartus_failure_halts_pipeline_witness:
  "[''--project'', ''-n'', ''p'', ''-l'', ''d'', ''--graph'', ''--quartus'', ''--database''] \<noteq> []
   \<and> parse_args demo_fs
        [''--project'', ''-n'', ''p'', ''-l'', ''d'', ''--graph'', ''--quartus'', ''--database'']
        initial_vars = Inr demo_vars
   \<and> launch_graph demo_vars \<and> launch_quartus demo_vars \<and> launch_db demo_vars
   \<and> (\<exists>ev0 ev1 s1 r1 t s2 r2.
         project_step failing_quartus_system demo_vars demo_fs = Inr (demo_vars, ev0, demo_fs) \<and>
         graph_step failing_quartus_system demo_vars demo_fs = Inr (ev1, s1) \<and>
         load_record s1 (metadata_path demo_vars) = Some r1 \<and>
         graphSerialized (graphVerilogMetadata r1) \<and> verilogGenerated (graphVerilogMetadata r1) \<and>
         uncheckMetadata (metadata_path demo_vars) 2 s1 = Some ([], t) \<and>
         failing_quartus_system (quartus_command demo_vars) t = (256, s2) \<and>
         WEXITSTATUS 256 = 1 \<and>
         load_record s2 (metadata_path demo_vars) = load_record t (metadata_path demo_vars) \<and>
         fst (broker_main failing_quartus_system
           [''--project'', ''-n'', ''p'', ''-l'', ''d'', ''--graph'', ''--quartus'', ''--database'']
           demo_fs) = Exit 1 \<and>
         snd (snd (broker_main failing_quartus_system
           [''--project'', ''-n'', ''p'', ''-l'', ''d'', ''--graph'', ''--quartus'', ''--database'']
           demo_fs)) = s2 \<and>
         launched (fst (snd (broker_main failing_quartus_system
           [''--project'', ''-n'', ''p'', ''-l'', ''d'', ''--graph'', ''--quartus'', ''--database'']
           demo_fs))) =
           [''../../../../../Project_manager/Project_manager -l d -n p -o'',
            ''../../../../../Graph_verilog_generator/Graph_verilog_generator -l d -n p'',
            ''../../../../../Quartus_compiler/Quartus_compiler -l d -n p''] \<and>
         load_record s2 demo_path = Some r2 \<and> stage_flags r2 = [True, True, False, False])"
proof -
  let ?args = "[''--project'', ''-n'', ''p'', ''-l'', ''d'', ''--graph'', ''--quartus'', ''--database'']"
  let ?sys = failing_quartus_system
  let ?mc = "''../../../../../Project_manager/Project_manager -l d -n p -o''"
  let ?gc = "''../../../../../Graph_verilog_generator/Graph_verilog_generator -l d -n p''"
  let ?qc = "''../../../../../Quartus_compiler/Quartus_compiler -l d -n p''"
  have ne: "?args \<noteq> []" by simp
  have parse: "parse_args demo_fs ?args initial_vars = Inr demo_vars"
    by (simp add: initial_vars_def demo_vars_def)
  have req: "launch_graph demo_vars" "launch_quartus demo_vars" "launch_db demo_vars"
    by (simp_all add: demo_vars_def)
  have mc: "manager_command demo_vars = ?mc" and gc: "graph_command demo_vars = ?gc"
    and qc: "quartus_command demo_vars = ?qc"
    by (simp_all add: manager_command_def graph_command_def quartus_command_def demo_vars_def
        manager_exec_def veriloger_exec_def quartus_exec_def)
  have sm: "?sys ?mc s = (0, s)" for s
    by (simp add: failing_quartus_system_def marking_system_def quartus_exec_def
        veriloger_exec_def db_exec_def)
  have sg: "?sys ?gc s = (0, mark_in_file Graph demo_path s)" for s
    by (simp add: failing_quartus_system_def marking_system_def quartus_exec_def
        veriloger_exec_def)
  have sq: "?sys ?qc s = (256, s)" for s
    by (simp add: failing_quartus_system_def quartus_exec_def)
  have w0: "WEXITSTATUS 0 = 0" and w1: "WEXITSTATUS 256 = 1" by (simp_all add: WEXITSTATUS_def)
  let ?ev0 = "[Out (''Executing: '' @ ?mc), Launch ?mc, Out ''Project_manager success.\<newline>'']"
  have proj: "project_step ?sys demo_vars demo_fs = Inr (demo_vars, ?ev0, demo_fs)"
    by (simp add: project_step_def runProcess_def mc sm w0) (simp add: demo_vars_def)
  from uncheckMetadata_record [OF load_demo, of 0] obtain t0 where
    t0: "uncheckMetadata demo_path 0 demo_fs = Some ([], t0)"
      "load_record t0 demo_path = Some (with_flags all_done (uncheck 0 (flags_of all_done)))"
    by blast
  let ?s1 = "mark_in_file Graph demo_path t0"
  let ?ev1 = "[Out (''Executing: '' @ ?gc), Launch ?gc, Out ''Graph_verilog_generator success.\<newline>'']"
  let ?r0 = "with_flags all_done (uncheck 0 (flags_of all_done))"
  let ?r1 = "with_flags ?r0 (markComplete Graph (flags_of ?r0))"
  have graph: "graph_step ?sys demo_vars demo_fs = Inr (?ev1, ?s1)"
    by (simp add: graph_step_def req demo_vars_path t0 runProcess_def gc sg w0)
  have r1: "load_record ?s1 (metadata_path demo_vars) = Some ?r1"
    by (simp add: demo_vars_path load_record_mark_in_file t0)
  have g1: "graphSerialized (graphVerilogMetadata ?r1)" "verilogGenerated (graphVerilogMetadata ?r1)"
    by (simp_all add: with_flags_def)
  from r1 have r1': "load_record ?s1 demo_path = Some ?r1" by (simp add: demo_vars_path)
  from uncheckMetadata_record [OF r1', of 2] obtain t where
    t: "uncheckMetadata demo_path 2 ?s1 = Some ([], t)" by blast
  then have unc: "uncheckMetadata (metadata_path demo_vars) 2 ?s1 = Some ([], t)"
    by (simp add: demo_vars_path)
  have q: "?sys (quartus_command demo_vars) t = (256, t)" by (simp add: qc sq)
  have wne: "WEXITSTATUS 256 \<noteq> 0" by (simp add: w1)
  have keep: "load_record t (metadata_path demo_vars) = load_record t (metadata_path demo_vars)" ..
  note inst = quartus_failure_halts_pipeline [where sys = ?sys,
      OF ne parse req proj graph unc q wne]
  from inst have
    run: "broker_main ?sys ?args demo_fs =
           (Exit 1,
            ?ev0 @ ?ev1 @ [] @ [Out (''Executing: '' @ quartus_command demo_vars),
                               Launch (quartus_command demo_vars),
                               Err ''Quartus_compiler failure.\<newline>''], t)"
    and l: "launched (fst (snd (broker_main ?sys ?args demo_fs))) =
           launched ?ev0 @ [graph_command demo_vars, quartus_command demo_vars]"
    by blast+
  from inst r1 g1 keep obtain r2 where
    r2: "load_record t (metadata_path demo_vars) = Some r2"
      "stage_flags r2 = [True, True, False, False]"
    by blast
  from l have l': "launched (fst (snd (broker_main ?sys ?args demo_fs))) = [?mc, ?gc, ?qc]"
    by (simp add: gc qc)
  from run have f: "fst (broker_main ?sys ?args demo_fs) = Exit 1"
    and sn: "snd (snd (broker_main ?sys ?args demo_fs)) = t" by simp_all
  from r2 have r2': "load_record t demo_path = Some r2" by (simp add: demo_vars_path)
  have "\<exists>ev0 ev1 s1 r1 t s2 r2.
         project_step ?sys demo_vars demo_fs = Inr (demo_vars, ev0, demo_fs) \<and>
         graph_step ?sys demo_vars demo_fs = Inr (ev1, s1) \<and>
         load_record s1 (metadata_path demo_vars) = Some r1 \<and>
         graphSerialized (graphVerilogMetadata r1) \<and> verilogGenerated (graphVerilogMetadata r1) \<and>
         uncheckMetadata (metadata_path demo_vars) 2 s1 = Some ([], t) \<and>
         ?sys (quartus_command demo_vars) t = (256, s2) \<and>
         WEXITSTATUS 256 = 1 \<and>
         load_record s2 (metadata_path demo_vars) = load_record t (metadata_path demo_vars) \<and>
         fst (broker_main ?sys ?args demo_fs) = Exit 1 \<and>
         snd (snd (broker_main ?sys ?args demo_fs)) = s2 \<and>
         launched (fst (snd (broker_main ?sys ?args demo_fs))) = [?mc, ?gc, ?qc] \<and>
         load_record s2 demo_path = Some r2 \<and> stage_flags r2 = [True, True, False, False]"
    using proj graph r1 g1 unc q w1 f sn l' r2' r2(2) by blast
  with ne parse req show ?thesis by blast
qed

text \<open>
  The claim as stated fails in its part about the record. On the command line that the
  Broker documents, \<^verbatim>\<open>--graph -l d -n p --quartus --database\<close>, location and name go to
  the generator only: the generator sets its flags in the record of \<open>d/p\<close>, the Broker
  looks for \<open>/_metadata.json\<close>, clears nothing, and after the failure of the compiler the
  record of \<open>d/p\<close> still has \<open>quartusCompiled\<close> and \<open>writtenToDB\<close> true. And with location
  and name given under \<^verbatim>\<open>--project\<close>, a compiler that sets its flag before it fails leaves
  \<open>quartusCompiled\<close> true. Both runs end with status 1 and launch no database writer.
\<close>

theorem quartus_failure_counterexample:
  "fst (broker_main failing_quartus_system
          [''--graph'', ''-l'', ''d'', ''-n'', ''p'', ''--quartus'', ''--database''] demo_fs) = Exit 1
   \<and> launched (fst (snd (broker_main failing_quartus_system
          [''--graph'', ''-l'', ''d'', ''-n'', ''p'', ''--quartus'', ''--database''] demo_fs))) =
       [''../../../../../Graph_verilog_generator/Graph_verilog_generator -l  -n  -l d -n p'',
        ''../../../../../Quartus_compiler/Quartus_compiler -l  -n '']
   \<and> map_option stage_flags
        (load_record (snd (snd (broker_main failing_quartus_system
           [''--graph'', ''-l'', ''d'', ''-n'', ''p'', ''--quartus'', ''--database''] demo_fs))) demo_path) =
       Some [True, True, True, True]
   \<and> fst (broker_main flag_then_fail_system
          [''--project'', ''-n'', ''p'', ''-l'', ''d'', ''--graph'', ''--quartus'', ''--database'']
          demo_fs) = Exit 1
   \<and> launched (fst (snd (broker_main flag_then_fail_system
          [''--project'', ''-n'', ''p'', ''-l'', ''d'', ''--graph'', ''--quartus'', ''--database'']
          demo_fs))) =
       [''../../../../../Project_manager/Project_manager -l d -n p -o'',
        ''../../../../../Graph_verilog_generator/Graph_verilog_generator -l d -n p'',
        ''../../../../../Quartus_compiler/Quartus_compiler -l d -n p'']
   \<and> map_option stage_flags
        (load_record (snd (snd (broker_main flag_then_fail_system
           [''--project'', ''-n'', ''p'', ''-l'', ''d'', ''--graph'', ''--quartus'', ''--database'']
           demo_fs))) demo_path) =
       Some [True, True, True, False]"
  by code_simp
end
